theory Spec2Isabelle
  imports Complex_Main
begin

section \<open>Bolometer: a shallow embedding of the profiling control loop\<close>

text \<open>
  The development follows the Go sources: \<^verbatim>\<open>internal/profiler\<close> (capture of pprof
  profiles), \<^verbatim>\<open>internal/metrics\<close> (utilisation percentages and the threshold test),
  \<^verbatim>\<open>internal/uploader\<close> (object keys and metadata), and \<^verbatim>\<open>internal/controller\<close>
  (the pod watcher and the reconciler). Go strings are byte strings and are modelled by
  \<^typ>\<open>string\<close>; a Go \<^verbatim>\<open>error\<close> is modelled by its message.
\<close>

type_synonym error = string

subsection \<open>Decimal rendering (\<^verbatim>\<open>%d\<close>, \<^verbatim>\<open>strconv.Itoa\<close>)\<close>

definition digit :: "nat \<Rightarrow> char" where
  "digit d = ''0123456789'' ! d"

fun itoa_nat :: "nat \<Rightarrow> string" where
  "itoa_nat n = (if n < 10 then [digit n] else itoa_nat (n div 10) @ [digit (n mod 10)])"

declare itoa_nat.simps [simp del]

definition itoa :: "int \<Rightarrow> string" where
  "itoa i = (if i < 0 then CHR ''-'' # itoa_nat (nat (- i)) else itoa_nat (nat i))"

subsection \<open>The profiler: kinds and endpoints\<close>

text \<open>\<^verbatim>\<open>func (p *Profiler) getProfileEndpoint(profileType string) string\<close>: a switch over
  six literal kind names with a default branch.\<close>

definition getProfileEndpoint :: "string \<Rightarrow> string" where
  "getProfileEndpoint profileType =
     (if profileType = ''heap'' then ''/debug/pprof/heap''
      else if profileType = ''cpu'' then ''/debug/pprof/profile?seconds=30''
      else if profileType = ''goroutine'' then ''/debug/pprof/goroutine''
      else if profileType = ''mutex'' then ''/debug/pprof/mutex''
      else if profileType = ''block'' then ''/debug/pprof/block''
      else if profileType = ''threadcreate'' then ''/debug/pprof/threadcreate''
      else ''/debug/pprof/'' @ profileType)"

subsection \<open>Pods and profiling configurations (the fields the code reads)\<close>

text \<open>\<^verbatim>\<open>resource.Quantity\<close> is an exact decimal; it is modelled by a rational number.
  \<^verbatim>\<open>Add\<close> is addition and \<^verbatim>\<open>IsZero\<close> is the test against zero. \<^verbatim>\<open>MilliValue\<close> and
  \<^verbatim>\<open>Value\<close> round up to the next integer (of thousandths, of units), as the library
  documents; their \<^verbatim>\<open>int64\<close> overflow is not modelled.\<close>

type_synonym Quantity = rat

definition IsZero :: "Quantity \<Rightarrow> bool" where
  "IsZero q = (q = 0)"

definition MilliValue :: "Quantity \<Rightarrow> int" where
  "MilliValue q = \<lceil>q * 1000\<rceil>"

definition Value :: "Quantity \<Rightarrow> int" where
  "Value q = \<lceil>q\<rceil>"

text \<open>A \<^verbatim>\<open>corev1.ResourceList\<close> maps a resource name (\<^verbatim>\<open>"cpu"\<close>, \<^verbatim>\<open>"memory"\<close>) to a
  quantity.\<close>

type_synonym ResourceList = "string \<rightharpoonup> Quantity"

definition ResourceCPU :: string where
  "ResourceCPU = ''cpu''"

definition ResourceMemory :: string where
  "ResourceMemory = ''memory''"

record OwnerReference =
  Kind :: string
  OName :: string

record Container =
  CName :: string
  Requests :: ResourceList

text \<open>Go maps of labels and annotations are association lists here (the uploader iterates
  over the labels); a \<^verbatim>\<open>nil\<close> map is the empty list, which reads and iterates alike.\<close>

record Pod =
  Name :: string
  Namespace :: string
  Labels :: "(string \<times> string) list"
  Annotations :: "(string \<times> string) list"
  OwnerReferences :: "OwnerReference list"
  Containers :: "Container list"
  Phase :: string

text \<open>\<^verbatim>\<open>v1beta1.PodMetrics\<close>: the usage of each container, as the metrics API reports
  it.\<close>

record ContainerMetrics =
  MName :: string
  Usage :: ResourceList

subsection \<open>The metrics collector\<close>

text \<open>A \<^verbatim>\<open>float64\<close>: the finite values are modelled by exact reals (rounding and
  overflow to infinity are not modelled), the infinities and NaN are explicit, so that a
  division by zero is visible in the model instead of being HOL's \<open>x / 0 = 0\<close>.\<close>

datatype f64 = Fin real | PInf | NInf | NaN

definition f64_of_int :: "int \<Rightarrow> f64" where
  "f64_of_int i = Fin (real_of_int i)"

fun f64_div :: "f64 \<Rightarrow> f64 \<Rightarrow> f64" where
  "f64_div (Fin a) (Fin b) =
     (if b = 0 then (if a = 0 then NaN else if 0 < a then PInf else NInf) else Fin (a / b))"
| "f64_div NaN y = NaN"
| "f64_div x NaN = NaN"
| "f64_div (Fin a) y = Fin 0"
| "f64_div PInf (Fin b) = (if 0 \<le> b then PInf else NInf)"
| "f64_div NInf (Fin b) = (if 0 \<le> b then NInf else PInf)"
| "f64_div x y = NaN"

fun f64_mul :: "f64 \<Rightarrow> f64 \<Rightarrow> f64" where
  "f64_mul (Fin a) (Fin b) = Fin (a * b)"
| "f64_mul NaN y = NaN"
| "f64_mul x NaN = NaN"
| "f64_mul (Fin a) PInf = (if a = 0 then NaN else if 0 < a then PInf else NInf)"
| "f64_mul (Fin a) NInf = (if a = 0 then NaN else if 0 < a then NInf else PInf)"
| "f64_mul PInf (Fin b) = (if b = 0 then NaN else if 0 < b then PInf else NInf)"
| "f64_mul NInf (Fin b) = (if b = 0 then NaN else if 0 < b then NInf else PInf)"
| "f64_mul PInf PInf = PInf"
| "f64_mul NInf NInf = PInf"
| "f64_mul x y = NInf"

text \<open>The comparison \<^verbatim>\<open>x > y\<close> of two \<^verbatim>\<open>float64\<close>: false as soon as one side is
  NaN.\<close>

fun f64_gt :: "f64 \<Rightarrow> f64 \<Rightarrow> bool" where
  "f64_gt (Fin a) (Fin b) = (b < a)"
| "f64_gt NaN y = False"
| "f64_gt x NaN = False"
| "f64_gt x PInf = False"
| "f64_gt PInf y = True"
| "f64_gt NInf y = False"
| "f64_gt (Fin a) NInf = True"

record PodMetrics =
  CPUUsagePercent :: f64
  MemoryUsagePercent :: f64
  CPUUsage :: Quantity
  MemoryUsage :: Quantity

text \<open>The two loops of \<^verbatim>\<open>calculateMetrics\<close>: for each container, add the quantity
  stored under the resource name when there is one.\<close>

fun aggregate :: "string \<Rightarrow> ResourceList list \<Rightarrow> Quantity \<Rightarrow> Quantity" where
  "aggregate r [] acc = acc"
| "aggregate r (c # cs) acc =
     aggregate r cs (case c r of Some q \<Rightarrow> acc + q | None \<Rightarrow> acc)"

text \<open>\<^verbatim>\<open>func (c *Collector) calculateMetrics(pod, podMetrics) (*PodMetrics, error)\<close>. The
  Go function has no failing path: the error it returns is always \<^verbatim>\<open>nil\<close>.\<close>

definition calculateMetrics :: "Pod \<Rightarrow> ContainerMetrics list \<Rightarrow> error + PodMetrics" where
  "calculateMetrics pod podMetrics =
     (let totalCPUUsage = aggregate ResourceCPU (map Usage podMetrics) 0;
          totalMemoryUsage = aggregate ResourceMemory (map Usage podMetrics) 0;
          totalCPURequest = aggregate ResourceCPU (map Requests (Containers pod)) 0;
          totalMemoryRequest = aggregate ResourceMemory (map Requests (Containers pod)) 0;
          cpuPercent =
            (if \<not> IsZero totalCPURequest
             then f64_mul (f64_div (f64_of_int (MilliValue totalCPUUsage))
                                   (f64_of_int (MilliValue totalCPURequest))) (Fin 100)
             else Fin 0);
          memoryPercent =
            (if \<not> IsZero totalMemoryRequest
             then f64_mul (f64_div (f64_of_int (Value totalMemoryUsage))
                                   (f64_of_int (Value totalMemoryRequest))) (Fin 100)
             else Fin 0)
      in Inr \<lparr>CPUUsagePercent = cpuPercent, MemoryUsagePercent = memoryPercent,
               CPUUsage = totalCPUUsage, MemoryUsage = totalMemoryUsage\<rparr>)"

text \<open>\<^verbatim>\<open>func (pm *PodMetrics) CheckThresholds(cpuThreshold, memoryThreshold int)\<close>. The
  rendering of a \<^verbatim>\<open>float64\<close> by \<^verbatim>\<open>%.2f\<close> is the parameter \<open>fmt2f\<close>.\<close>

definition CheckThresholds :: "(f64 \<Rightarrow> string) \<Rightarrow> PodMetrics \<Rightarrow> int \<Rightarrow> int \<Rightarrow> bool \<times> string" where
  "CheckThresholds fmt2f pm cpuThreshold memoryThreshold =
     (if f64_gt (CPUUsagePercent pm) (f64_of_int cpuThreshold)
      then (True, ''CPU usage '' @ fmt2f (CPUUsagePercent pm) @ ''% exceeds threshold ''
                    @ itoa cpuThreshold @ ''%'')
      else if f64_gt (MemoryUsagePercent pm) (f64_of_int memoryThreshold)
      then (True, ''Memory usage '' @ fmt2f (MemoryUsagePercent pm) @ ''% exceeds threshold ''
                    @ itoa memoryThreshold @ ''%'')
      else (False, ''''))"

subsection \<open>The uploader: service names\<close>

text \<open>The first loop of \<^verbatim>\<open>getServiceName\<close>,
  \<^verbatim>\<open>for i := len(name) - 1; i >= 0; i-- { if name[i] == '-' { lastDash = i; break } }\<close>:
  the second argument counts the positions not yet visited (the next index read is one
  below it), the third is the value \<^verbatim>\<open>lastDash\<close> holds when no dash is found.\<close>

fun lastDashFrom :: "string \<Rightarrow> nat \<Rightarrow> int \<Rightarrow> int" where
  "lastDashFrom name 0 lastDash = lastDash"
| "lastDashFrom name (Suc i) lastDash =
     (if name ! i = CHR ''-'' then int i else lastDashFrom name i lastDash)"

text \<open>The second loop counts dashes from the end and stops at the second one.\<close>

fun secondDashFrom :: "string \<Rightarrow> nat \<Rightarrow> nat \<Rightarrow> int \<Rightarrow> int" where
  "secondDashFrom name 0 dashCount lastDash = lastDash"
| "secondDashFrom name (Suc i) dashCount lastDash =
     (if name ! i = CHR ''-''
      then (if dashCount + 1 = 2 then int i
            else secondDashFrom name i (dashCount + 1) lastDash)
      else secondDashFrom name i dashCount lastDash)"

text \<open>\<^verbatim>\<open>if v, ok := pod.Labels[k]; ok && v != ""\<close>.\<close>

definition nonEmptyLabel :: "Pod \<Rightarrow> string \<Rightarrow> string option" where
  "nonEmptyLabel pod k =
     (case map_of (Labels pod) k of
        Some v \<Rightarrow> if v \<noteq> '''' then Some v else None
      | None \<Rightarrow> None)"

text \<open>\<^verbatim>\<open>func (u *S3Uploader) getServiceName(pod *corev1.Pod) string\<close>.\<close>

definition getServiceName :: "Pod \<Rightarrow> string" where
  "getServiceName pod =
     (case nonEmptyLabel pod ''app.kubernetes.io/name'' of
        Some name \<Rightarrow> name
      | None \<Rightarrow>
     (case nonEmptyLabel pod ''app'' of
        Some app \<Rightarrow> app
      | None \<Rightarrow>
     (case nonEmptyLabel pod ''k8s-app'' of
        Some app \<Rightarrow> app
      | None \<Rightarrow>
     (case OwnerReferences pod of
        owner # _ \<Rightarrow>
          (if Kind owner = ''ReplicaSet''
           then (let name = OName owner;
                     lastDash = lastDashFrom name (length name) (int (length name) - 1)
                 in if 0 < lastDash then take (nat lastDash) name else OName owner)
           else OName owner)
      | [] \<Rightarrow>
          (let name = Name pod;
               lastDash = secondDashFrom name (length name) 0 (- 1)
           in if 0 < lastDash then take (nat lastDash) name else name)))))"






subsection \<open>Wall-clock time and \<^verbatim>\<open>time.Time.Format\<close>\<close>

text \<open>An instant is a number of nanoseconds. The calendar fields \<^verbatim>\<open>Format\<close> prints (date,
  clock and zone offset of the instant in its location) are computed by the \<^verbatim>\<open>time\<close>
  package; that computation is a parameter \<open>civil\<close> of the functions that format.\<close>

type_synonym Time = int

record Civil =
  year :: int
  month :: nat
  day :: nat
  hour :: nat
  minute :: nat
  second :: nat
  offset :: int

text \<open>\<^verbatim>\<open>appendInt(b, x, width)\<close> of package \<^verbatim>\<open>time\<close>: a sign for a negative number, then
  the decimal digits, padded with zeros on the left up to the width.\<close>

definition appendInt :: "int \<Rightarrow> nat \<Rightarrow> string" where
  "appendInt x width =
     (let ds = itoa_nat (nat \<bar>x\<bar>)
      in (if x < 0 then ''-'' else '''') @ replicate (width - length ds) (CHR ''0'') @ ds)"

text \<open>The three layouts the uploader uses: \<^verbatim>\<open>"2006-01-02"\<close>, \<^verbatim>\<open>"20060102-150405"\<close> and
  \<^verbatim>\<open>time.RFC3339\<close> (\<^verbatim>\<open>"2006-01-02T15:04:05Z07:00"\<close>).\<close>

definition layout_date :: "Civil \<Rightarrow> string" where
  "layout_date c =
     appendInt (year c) 4 @ ''-'' @ appendInt (int (month c)) 2 @ ''-'' @ appendInt (int (day c)) 2"

definition layout_compact :: "Civil \<Rightarrow> string" where
  "layout_compact c =
     appendInt (year c) 4 @ appendInt (int (month c)) 2 @ appendInt (int (day c)) 2 @ ''-'' @
     appendInt (int (hour c)) 2 @ appendInt (int (minute c)) 2 @ appendInt (int (second c)) 2"

definition layout_zone :: "int \<Rightarrow> string" where
  "layout_zone off =
     (if off = 0 then ''Z''
      else (let zone = (if off < 0 then (- off) div 60 else off div 60)
            in (if off \<le> - 60 then ''-'' else ''+'') @
               appendInt (zone div 60) 2 @ '':'' @ appendInt (zone mod 60) 2))"

definition layout_RFC3339 :: "Civil \<Rightarrow> string" where
  "layout_RFC3339 c =
     layout_date c @ ''T'' @
     appendInt (int (hour c)) 2 @ '':'' @ appendInt (int (minute c)) 2 @ '':'' @
     appendInt (int (second c)) 2 @ layout_zone (offset c)"

subsection \<open>\<^verbatim>\<open>filepath.Join\<close> and \<^verbatim>\<open>filepath.Clean\<close> (Unix)\<close>

text \<open>The components of a path between its separators.\<close>

fun split_slash :: "string \<Rightarrow> string list" where
  "split_slash [] = ['''']"
| "split_slash (c # cs) =
     (if c = CHR ''/'' then [] # split_slash cs
      else (case split_slash cs of x # xs \<Rightarrow> (c # x) # xs | [] \<Rightarrow> [c # '''']))"

text \<open>\<^verbatim>\<open>strings.Join(elems, "/")\<close>.\<close>

fun join_slash :: "string list \<Rightarrow> string" where
  "join_slash [] = []"
| "join_slash [x] = x"
| "join_slash (x # y # zs) = x @ ''/'' @ join_slash (y # zs)"

text \<open>One component of the path seen by \<^verbatim>\<open>Clean\<close>, \<open>out\<close> being the components written so
  far: an empty component and \<^verbatim>\<open>.\<close> are dropped; \<^verbatim>\<open>..\<close> removes the component before it
  when there is one that is not itself \<^verbatim>\<open>..\<close>, is dropped at the root, and is kept
  otherwise; any other component is appended.\<close>

definition clean_step :: "bool \<Rightarrow> string list \<Rightarrow> string \<Rightarrow> string list" where
  "clean_step rooted out c =
     (if c = '''' \<or> c = ''.'' then out
      else if c = ''..'' then
        (if out \<noteq> [] \<and> last out \<noteq> ''..'' then butlast out
         else if rooted then out
         else out @ [''..''])
      else out @ [c])"

definition Clean :: "string \<Rightarrow> string" where
  "Clean path =
     (if path = '''' then ''.''
      else (let rooted = (hd path = CHR ''/'');
                out = foldl (clean_step rooted) [] (split_slash path);
                res = (if rooted then ''/'' else '''') @ join_slash out
            in if res = '''' then ''.'' else res))"

text \<open>\<^verbatim>\<open>filepath.Join\<close>: the elements from the first non-empty one on are joined with the
  separator and the result is cleaned; with no non-empty element the result is empty.\<close>

definition filepath_Join :: "string list \<Rightarrow> string" where
  "filepath_Join elem =
     (case dropWhile (\<lambda>e. e = '''') elem of
        [] \<Rightarrow> ''''
      | rest \<Rightarrow> Clean (join_slash rest))"

subsection \<open>The uploader: object keys and metadata\<close>

record Profile =
  PType :: string
  Data :: string
  Timestamp :: Time

record S3Uploader =
  bucket :: string
  prefix :: string

text \<open>\<^verbatim>\<open>func (u *S3Uploader) generateKey(pod, profile) string\<close>.\<close>

definition generateKey :: "(Time \<Rightarrow> Civil) \<Rightarrow> S3Uploader \<Rightarrow> Pod \<Rightarrow> Profile \<Rightarrow> string" where
  "generateKey civil u pod profile =
     (let date = layout_date (civil (Timestamp profile));
          serviceName = getServiceName pod;
          timestamp = layout_compact (civil (Timestamp profile));
          filename = timestamp @ ''-'' @ PType profile @ ''.pprof''
      in filepath_Join [prefix u, date, serviceName, filename])"

record PutObjectInput =
  PBucket :: string
  PKey :: string
  PBody :: string
  PContentType :: string
  PMetadata :: "string \<rightharpoonup> string"

text \<open>The argument \<^verbatim>\<open>UploadProfile\<close> passes to \<^verbatim>\<open>PutObject\<close>: the five fixed metadata
  entries, then one entry \<^verbatim>\<open>pod-label-<k>\<close> per label of the pod.\<close>

definition putObjectInput ::
  "(Time \<Rightarrow> Civil) \<Rightarrow> S3Uploader \<Rightarrow> Pod \<Rightarrow> Profile \<Rightarrow> string \<Rightarrow> PutObjectInput" where
  "putObjectInput civil u pod profile reason =
     (let key = generateKey civil u pod profile;
          metadata = [''pod-name'' \<mapsto> Name pod,
                      ''pod-namespace'' \<mapsto> Namespace pod,
                      ''profile-type'' \<mapsto> PType profile,
                      ''reason'' \<mapsto> reason,
                      ''timestamp'' \<mapsto> layout_RFC3339 (civil (Timestamp profile))];
          metadata' = foldl (\<lambda>m (k, v). m(''pod-label-'' @ k \<mapsto> v)) metadata (Labels pod)
      in \<lparr>PBucket = bucket u, PKey = key, PBody = Data profile,
          PContentType = ''application/octet-stream'', PMetadata = metadata'\<rparr>)"

text \<open>The object key as the specification words it: prefix, date, service name and file
  name joined by \<^verbatim>\<open>/\<close>, empty parts left out.\<close>

definition spec_key :: "string \<Rightarrow> string \<Rightarrow> string \<Rightarrow> string \<Rightarrow> string" where
  "spec_key pfx date serviceName filename =
     join_slash (filter (\<lambda>s. s \<noteq> '''') [pfx, date, serviceName, filename])"

text \<open>An ordinary path segment: not empty, not \<^verbatim>\<open>.\<close> or \<^verbatim>\<open>..\<close>, without a separator.\<close>

definition plain :: "string \<Rightarrow> bool" where
  "plain s = (s \<noteq> '''' \<and> s \<noteq> ''.'' \<and> s \<noteq> ''..'' \<and> CHR ''/'' \<notin> set s)"

text \<open>The pod and the instant of the repository's key test, in UTC.\<close>

definition test_pod :: Pod where
  "test_pod =
     \<lparr>Name = ''test-app-abc123-xyz456'', Namespace = ''production'',
      Labels = [(''app'', ''test-app'')], Annotations = [], OwnerReferences = [],
      Containers = [], Phase = ''Running''\<rparr>"

definition test_civil :: "Time \<Rightarrow> Civil" where
  "test_civil t =
     \<lparr>year = 2024, month = 1, day = 15, hour = 12, minute = 30, second = 45, offset = 0\<rparr>"

subsection \<open>Profiling configurations\<close>

text \<open>\<^verbatim>\<open>int64\<close> arithmetic where the code can overflow: the value of an integer wrapped
  into the signed 64-bit range, and clamped to it.\<close>

definition wrap64 :: "int \<Rightarrow> int" where
  "wrap64 x = (x + 2 ^ 63) mod 2 ^ 64 - 2 ^ 63"

definition sat64 :: "int \<Rightarrow> int" where
  "sat64 x = (if x < - (2 ^ 63) then - (2 ^ 63) else if 2 ^ 63 - 1 < x then 2 ^ 63 - 1 else x)"

record OnDemandConfig =
  Enabled :: bool
  IntervalSeconds :: int

text \<open>\<^verbatim>\<open>ProfilingConfig\<close> with the fields of its metadata, \<^verbatim>\<open>Spec\<close> (selector, thresholds,
  on-demand settings, S3 settings, profile types) and \<^verbatim>\<open>Status\<close>, flattened into one
  record.\<close>

record ProfilingConfig =
  CfgName :: string
  CfgNamespace :: string
  SelectorNamespace :: string
  LabelSelector :: "(string \<times> string) list"
  CPUThresholdPercent :: int
  MemoryThresholdPercent :: int
  CheckIntervalSeconds :: int
  CooldownSeconds :: int
  OnDemand :: "OnDemandConfig option"
  Bucket :: string
  Prefix :: string
  Region :: string
  Endpoint :: string
  ProfileTypes :: "string list"
  ActivePods :: int
  LastProfileTime :: "Time option"
  TotalProfiles :: int
  TotalUploads :: int

subsection \<open>The services the controller calls\<close>

text \<open>The outcome of the \<^verbatim>\<open>select\<close> in \<^verbatim>\<open>CaptureProfiles\<close>, of an HTTP exchange, and of
  fetching a \<^verbatim>\<open>ProfilingConfig\<close> from the API server.\<close>

datatype select_outcome = Ready | Timeout | Done error

record http_response =
  StatusCode :: int
  Body :: "error + string"

datatype get_result = Found ProfilingConfig | NotFound | GetError error

text \<open>Every call that leaves the process is a field of \<open>Env\<close>: a function of the instant
  of the call and of its arguments. The calls that block return, with their outcome, the
  nanoseconds they took; \<^verbatim>\<open>time.Now()\<close> is the clock the caller threads through.
  \<^item> \<open>portForward\<close>: \<^verbatim>\<open>setupPortForward\<close> for namespace, pod name and remote port;
  \<^item> \<open>ready\<close>: which case of the \<^verbatim>\<open>select\<close> on \<^verbatim>\<open>readyChan\<close>, the 10 s timer and
    \<^verbatim>\<open>ctx.Done()\<close> fires;
  \<^item> \<open>httpGet\<close>: building and sending the GET request for a URL, and reading the body
    (\<open>Inl\<close> when \<^verbatim>\<open>NewRequestWithContext\<close> or \<^verbatim>\<open>client.Do\<close> fails);
  \<^item> \<open>loadAWSConfig\<close>: \<^verbatim>\<open>config.LoadDefaultConfig\<close> for a region;
  \<^item> \<open>putObject\<close>: the S3 \<^verbatim>\<open>PutObject\<close> call;
  \<^item> \<open>getPodMetrics\<close>: the metrics API for namespace and pod name;
  \<^item> \<open>getConfig\<close>, \<open>updateStatus\<close>: \<^verbatim>\<open>r.Get\<close> and \<^verbatim>\<open>r.Status().Update\<close>;
  \<^item> \<open>listPods\<close>: the pods of a namespace that satisfy a label selector.\<close>

record Env =
  calendar :: "Time \<Rightarrow> Civil"
  format2f :: "f64 \<Rightarrow> string"
  portForward :: "Time \<Rightarrow> string \<Rightarrow> string \<Rightarrow> int \<Rightarrow> (error + int) \<times> nat"
  ready :: "Time \<Rightarrow> select_outcome \<times> nat"
  httpGet :: "Time \<Rightarrow> string \<Rightarrow> (error + http_response) \<times> nat"
  loadAWSConfig :: "Time \<Rightarrow> string \<Rightarrow> error option"
  putObject :: "Time \<Rightarrow> PutObjectInput \<Rightarrow> error option \<times> nat"
  getPodMetrics :: "Time \<Rightarrow> string \<Rightarrow> string \<Rightarrow> (error + ContainerMetrics list) \<times> nat"
  getConfig :: "Time \<Rightarrow> string \<Rightarrow> get_result"
  updateStatus :: "Time \<Rightarrow> ProfilingConfig \<Rightarrow> error option"
  listPods :: "Time \<Rightarrow> string \<Rightarrow> (string \<times> string) list \<Rightarrow> error + Pod list"

subsection \<open>The profiler: capturing profiles\<close>

text \<open>\<^verbatim>\<open>strconv.Atoi\<close>: an optional sign, then one or more decimal digits; an error (here
  \<open>None\<close>) for anything else and for a value outside \<^verbatim>\<open>int64\<close>.\<close>

definition is_digit :: "char \<Rightarrow> bool" where
  "is_digit c = (c \<in> set ''0123456789'')"

definition digit_value :: "char \<Rightarrow> nat" where
  "digit_value c = length (takeWhile (\<lambda>d. d \<noteq> c) ''0123456789'')"

fun digits_value :: "string \<Rightarrow> nat \<Rightarrow> nat" where
  "digits_value [] acc = acc"
| "digits_value (c # cs) acc = digits_value cs (10 * acc + digit_value c)"

definition Atoi :: "string \<Rightarrow> int option" where
  "Atoi s =
     (let neg = (take 1 s = ''-'');
          ds = (if take 1 s = ''-'' \<or> take 1 s = ''+'' then drop 1 s else s)
      in if ds = [] \<or> \<not> list_all is_digit ds then None
         else (let v = int (digits_value ds 0); r = (if neg then - v else v)
               in if r < - (2 ^ 63) \<or> 2 ^ 63 - 1 < r then None else Some r))"

definition DefaultPprofPort :: int where
  "DefaultPprofPort = 6060"

definition PprofPortAnnotation :: string where
  "PprofPortAnnotation = ''bolometer.io/port''"

text \<open>\<^verbatim>\<open>func (p *Profiler) getPprofPort(pod *corev1.Pod) int\<close>.\<close>

definition getPprofPort :: "Pod \<Rightarrow> int" where
  "getPprofPort pod =
     (case map_of (Annotations pod) PprofPortAnnotation of
        None \<Rightarrow> DefaultPprofPort
      | Some portStr \<Rightarrow>
          (case Atoi portStr of
             None \<Rightarrow> DefaultPprofPort
           | Some port \<Rightarrow> if port \<le> 0 \<or> 65535 < port then DefaultPprofPort else port))"

text \<open>\<^verbatim>\<open>fmt.Sprintf("http://localhost:%d%s", localPort, endpoint)\<close>.\<close>

definition profileURL :: "int \<Rightarrow> string \<Rightarrow> string" where
  "profileURL localPort profileType =
     ''http://localhost:'' @ itoa localPort @ getProfileEndpoint profileType"

definition StatusOK :: int where
  "StatusOK = 200"

text \<open>\<^verbatim>\<open>func (p *Profiler) captureProfile(ctx, localPort, profileType) (Profile, error)\<close>,
  started at the instant \<open>clk\<close>; the second component of the result is the instant at which
  it returns. On the successful path that is the instant \<^verbatim>\<open>time.Now()\<close> reads, right after
  \<^verbatim>\<open>io.ReadAll\<close> has returned the body.\<close>

definition captureProfile ::
  "Env \<Rightarrow> Time \<Rightarrow> int \<Rightarrow> string \<Rightarrow> (error + Profile) \<times> Time" where
  "captureProfile env clk localPort profileType =
     (let url = profileURL localPort profileType;
          (res, d) = httpGet env clk url;
          now = clk + int d
      in (case res of
            Inl err \<Rightarrow> Inl err
          | Inr resp \<Rightarrow>
              if StatusCode resp \<noteq> StatusOK
              then Inl (''unexpected status code: '' @ itoa (StatusCode resp))
              else (case Body resp of
                      Inl err \<Rightarrow> Inl err
                    | Inr data \<Rightarrow>
                        Inr \<lparr>PType = profileType, Data = data, Timestamp = now\<rparr>),
          now))"

text \<open>The loop of \<^verbatim>\<open>CaptureProfiles\<close> over the requested kinds: the first failure ends it
  and discards the profiles captured so far.\<close>

fun captureLoop ::
  "Env \<Rightarrow> Time \<Rightarrow> int \<Rightarrow> string list \<Rightarrow> Profile list \<Rightarrow> (error + Profile list) \<times> Time" where
  "captureLoop env clk localPort [] profiles = (Inr profiles, clk)"
| "captureLoop env clk localPort (profileType # rest) profiles =
     (case captureProfile env clk localPort profileType of
        (Inl err, clk') \<Rightarrow>
          (Inl (''failed to capture '' @ profileType @ '' profile: '' @ err), clk')
      | (Inr profile, clk') \<Rightarrow> captureLoop env clk' localPort rest (profiles @ [profile]))"

text \<open>\<^verbatim>\<open>func (p *Profiler) CaptureProfiles(ctx, pod, profileTypes) ([]Profile, error)\<close>.\<close>

definition CaptureProfiles ::
  "Env \<Rightarrow> Time \<Rightarrow> Pod \<Rightarrow> string list \<Rightarrow> (error + Profile list) \<times> Time" where
  "CaptureProfiles env clk pod profileTypes =
     (let port = getPprofPort pod;
          (fw, d1) = portForward env clk (Namespace pod) (Name pod) port;
          clk1 = clk + int d1
      in case fw of
           Inl err \<Rightarrow> (Inl (''failed to setup port forward: '' @ err), clk1)
         | Inr localPort \<Rightarrow>
             (let (sel, d2) = ready env clk1;
                  clk2 = clk1 + int d2
              in case sel of
                   Timeout \<Rightarrow> (Inl ''timeout waiting for port forward'', clk2)
                 | Done err \<Rightarrow> (Inl err, clk2)
                 | Ready \<Rightarrow> captureLoop env clk2 localPort profileTypes []))"

text \<open>The schedule of the HTTP requests of one capture, were all of them issued: for each
  kind in turn, the instant its request starts and the instant its body has been read.\<close>

fun timeline :: "Env \<Rightarrow> Time \<Rightarrow> int \<Rightarrow> string list \<Rightarrow> (Time \<times> Time) list" where
  "timeline env clk localPort [] = []"
| "timeline env clk localPort (k # ks) =
     (let d = snd (httpGet env clk (profileURL localPort k))
      in (clk, clk + int d) # timeline env (clk + int d) localPort ks)"

text \<open>An environment for the examples: the port-forward yields local port 40000 after
  1 ns, the heap endpoint answers 200 after 2 ns, the CPU endpoint answers 200 after
  30 ns, every other URL answers 404 after 1 ns; uploads and status updates succeed.\<close>

definition example_env :: Env where
  "example_env =
     \<lparr>calendar = test_civil,
      format2f = (\<lambda>x. ''?''),
      portForward = (\<lambda>t ns n p. (Inr 40000, 1)),
      ready = (\<lambda>t. (Ready, 0)),
      httpGet = (\<lambda>t url.
         if url = ''http://localhost:40000/debug/pprof/heap''
         then (Inr \<lparr>StatusCode = 200, Body = Inr ''heap-bytes''\<rparr>, 2)
         else if url = ''http://localhost:40000/debug/pprof/profile?seconds=30''
         then (Inr \<lparr>StatusCode = 200, Body = Inr ''cpu-bytes''\<rparr>, 30)
         else (Inr \<lparr>StatusCode = 404, Body = Inr ''not found''\<rparr>, 1)),
      loadAWSConfig = (\<lambda>t region. None),
      putObject = (\<lambda>t input. (None, 1)),
      getPodMetrics = (\<lambda>t ns n.
         (Inr [\<lparr>MName = ''app'', Usage = [''cpu'' \<mapsto> 85 / 100, ''memory'' \<mapsto> 10]\<rparr>], 0)),
      getConfig = (\<lambda>t key. NotFound),
      updateStatus = (\<lambda>t c. None),
      listPods = (\<lambda>t ns sel. Inr [])\<rparr>"

text \<open>Whether the tunnel to the pod comes up: the local port, and the instant at which the
  first HTTP request starts.\<close>

definition tunnel :: "Env \<Rightarrow> Time \<Rightarrow> Pod \<Rightarrow> (int \<times> Time) option" where
  "tunnel env clk pod =
     (case portForward env clk (Namespace pod) (Name pod) (getPprofPort pod) of
        (Inl err, d1) \<Rightarrow> None
      | (Inr localPort, d1) \<Rightarrow>
          (case ready env (clk + int d1) of
             (Ready, d2) \<Rightarrow> Some (localPort, clk + int d1 + int d2)
           | (Timeout, d2) \<Rightarrow> None
           | (Done err, d2) \<Rightarrow> None))"

subsection \<open>The pod watcher\<close>

definition ProfilingEnabledAnnotation :: string where
  "ProfilingEnabledAnnotation = ''bolometer.io/enabled''"

text \<open>\<^verbatim>\<open>TrackedPod\<close>. Its fields \<^verbatim>\<open>LastProfileTime\<close>, \<^verbatim>\<open>OnDemandTicker\<close> and \<^verbatim>\<open>StopChan\<close>
  are never assigned (\<^verbatim>\<open>TrackPod\<close> builds an entry from the pod and the configuration
  only), so both \<^verbatim>\<open>nil\<close> tests of \<^verbatim>\<open>stopTrackingLocked\<close> fail and the fields are left out.\<close>

record TrackedPod =
  TPod :: Pod
  TConfig :: ProfilingConfig

text \<open>\<^verbatim>\<open>PodWatcher\<close>: the two maps, both keyed by \<^verbatim>\<open>namespace/name\<close>. The tracked pods are an
  association list with one entry per key (the order in which Go ranges over the map is
  unspecified; the list fixes one); every method runs under the watcher's lock, so each
  is one atomic step.\<close>

record PodWatcher =
  trackedPods :: "(string \<times> TrackedPod) list"
  lastProfileTime :: "string \<rightharpoonup> Time"

definition NewPodWatcher :: PodWatcher where
  "NewPodWatcher = \<lparr>trackedPods = [], lastProfileTime = Map.empty\<rparr>"

definition getPodKey :: "Pod \<Rightarrow> string" where
  "getPodKey pod = Namespace pod @ ''/'' @ Name pod"

definition isPodProfilingEnabled :: "Pod \<Rightarrow> bool" where
  "isPodProfilingEnabled pod =
     (case map_of (Annotations pod) ProfilingEnabledAnnotation of
        None \<Rightarrow> False
      | Some v \<Rightarrow> v = ''true'')"

definition PodRunning :: string where
  "PodRunning = ''Running''"

definition ListMatchingPods :: "Env \<Rightarrow> Time \<Rightarrow> ProfilingConfig \<Rightarrow> error + Pod list" where
  "ListMatchingPods env clk config =
     (let namespace = (if SelectorNamespace config = '''' then CfgNamespace config
                       else SelectorNamespace config)
      in case listPods env clk namespace (LabelSelector config) of
           Inl err \<Rightarrow> Inl err
         | Inr items \<Rightarrow>
             Inr (filter (\<lambda>pod. isPodProfilingEnabled pod \<and> Phase pod = PodRunning) items))"

text \<open>\<^verbatim>\<open>stopTrackingLocked\<close>: \<^verbatim>\<open>delete(pw.trackedPods, key)\<close> and
  \<^verbatim>\<open>delete(pw.lastProfileTime, key)\<close>.\<close>

definition stopTrackingLocked :: "PodWatcher \<Rightarrow> string \<Rightarrow> PodWatcher" where
  "stopTrackingLocked pw key =
     pw\<lparr>trackedPods := filter (\<lambda>(k, t). k \<noteq> key) (trackedPods pw),
        lastProfileTime := (lastProfileTime pw)(key := None)\<rparr>"

definition TrackPod :: "PodWatcher \<Rightarrow> Pod \<Rightarrow> ProfilingConfig \<Rightarrow> PodWatcher" where
  "TrackPod pw pod config =
     (let key = getPodKey pod;
          pw1 = (case map_of (trackedPods pw) key of
                   Some existing \<Rightarrow> stopTrackingLocked pw key
                 | None \<Rightarrow> pw);
          tracked = \<lparr>TPod = pod, TConfig = config\<rparr>
      in pw1\<lparr>trackedPods := trackedPods pw1 @ [(key, tracked)]\<rparr>)"

definition StopTrackingPod :: "PodWatcher \<Rightarrow> Pod \<Rightarrow> PodWatcher" where
  "StopTrackingPod pw pod =
     (let key = getPodKey pod
      in case map_of (trackedPods pw) key of
           Some tracked \<Rightarrow> stopTrackingLocked pw key
         | None \<Rightarrow> pw)"

definition GetTrackedPods :: "PodWatcher \<Rightarrow> TrackedPod list" where
  "GetTrackedPods pw = map snd (trackedPods pw)"

text \<open>\<^verbatim>\<open>CanProfile\<close> at the instant \<open>now\<close>: \<^verbatim>\<open>time.Duration(cooldownSeconds) * time.Second\<close>
  wraps in \<^verbatim>\<open>int64\<close>, \<^verbatim>\<open>time.Since\<close> saturates.\<close>

definition CanProfile :: "PodWatcher \<Rightarrow> Time \<Rightarrow> Pod \<Rightarrow> int \<Rightarrow> bool" where
  "CanProfile pw now pod cooldownSeconds =
     (case lastProfileTime pw (getPodKey pod) of
        None \<Rightarrow> True
      | Some lastTime \<Rightarrow>
          (let cooldown = wrap64 (cooldownSeconds * 1000000000)
           in cooldown < sat64 (now - lastTime)))"

definition UpdateLastProfileTime :: "PodWatcher \<Rightarrow> Time \<Rightarrow> Pod \<Rightarrow> PodWatcher" where
  "UpdateLastProfileTime pw now pod =
     pw\<lparr>lastProfileTime := (lastProfileTime pw)(getPodKey pod \<mapsto> now)\<rparr>"

definition GetActivePodCount :: "PodWatcher \<Rightarrow> int" where
  "GetActivePodCount pw = int (length (trackedPods pw))"

subsection \<open>The reconciler\<close>

datatype monitor_kind = ThresholdMonitor | OnDemandMonitor

datatype trigger = ByThreshold | ByInterval

text \<open>The reconciler's state: the pod watcher and the map of cancel functions (a context
  is identified by a number). The other fields record what the reconciler did to the
  outside: the monitor goroutines it started (context, flavour, configuration), the
  contexts it cancelled, the objects it wrote with \<^verbatim>\<open>Status().Update\<close>, the calls of
  \<^verbatim>\<open>captureAndUpload\<close> (trigger, pod key, configuration key, reason, instant of the call),
  and the wall clock.\<close>

record Reconciler =
  podWatcher :: PodWatcher
  activeMonitors :: "string \<rightharpoonup> nat"
  nextCtx :: nat
  started :: "(nat \<times> monitor_kind \<times> ProfilingConfig) list"
  cancelled :: "nat list"
  statusWrites :: "ProfilingConfig list"
  captures :: "(trigger \<times> string \<times> string \<times> string \<times> Time) list"
  clock :: Time

definition NewProfilingConfigReconciler :: Reconciler where
  "NewProfilingConfigReconciler =
     \<lparr>podWatcher = NewPodWatcher, activeMonitors = Map.empty, nextCtx = 0, started = [],
      cancelled = [], statusWrites = [], captures = [], clock = 0\<rparr>"

definition configKeyOf :: "ProfilingConfig \<Rightarrow> string" where
  "configKeyOf config = CfgNamespace config @ ''/'' @ CfgName config"

text \<open>\<^verbatim>\<open>validateConfig\<close>: \<open>None\<close> is the \<^verbatim>\<open>nil\<close> error.\<close>

definition validateConfig :: "ProfilingConfig \<Rightarrow> error option" where
  "validateConfig config =
     (if Bucket config = '''' then Some ''s3 bucket is required''
      else if Region config = '''' then Some ''s3 region is required''
      else None)"

definition startMonitoring :: "Reconciler \<Rightarrow> ProfilingConfig \<Rightarrow> Reconciler" where
  "startMonitoring r config =
     (let configKey = configKeyOf config;
          ctx = nextCtx r;
          r1 = r\<lparr>activeMonitors := (activeMonitors r)(configKey \<mapsto> ctx),
                 nextCtx := Suc ctx,
                 started := started r @ [(ctx, ThresholdMonitor, config)]\<rparr>
      in case OnDemand config of
           None \<Rightarrow> r1
         | Some od \<Rightarrow>
             if Enabled od then r1\<lparr>started := started r1 @ [(ctx, OnDemandMonitor, config)]\<rparr>
             else r1)"

definition stopMonitoring :: "Reconciler \<Rightarrow> string \<Rightarrow> Reconciler" where
  "stopMonitoring r configKey =
     (case activeMonitors r configKey of
        Some cancel \<Rightarrow>
          r\<lparr>cancelled := cancelled r @ [cancel],
            activeMonitors := (activeMonitors r)(configKey := None)\<rparr>
      | None \<Rightarrow> r)"

record Result =
  RequeueAfter :: int

text \<open>\<^verbatim>\<open>Reconcile\<close> for the request \<^verbatim>\<open>namespace/name\<close>. The tracked entries hold a pointer
  to the configuration object; the status field written to it afterwards is not read
  through them.\<close>

definition Reconcile ::
  "Env \<Rightarrow> Reconciler \<Rightarrow> string \<Rightarrow> string \<Rightarrow> (error + Result) \<times> Reconciler" where
  "Reconcile env r namespace name =
     (let configKey = namespace @ ''/'' @ name
      in case getConfig env (clock r) configKey of
           NotFound \<Rightarrow> (Inr \<lparr>RequeueAfter = 0\<rparr>, stopMonitoring r configKey)
         | GetError err \<Rightarrow> (Inl err, r)
         | Found config \<Rightarrow>
             (case validateConfig config of
                Some err \<Rightarrow> (Inl err, r)
              | None \<Rightarrow>
                  (case ListMatchingPods env (clock r) config of
                     Inl err \<Rightarrow> (Inl err, r)
                   | Inr pods \<Rightarrow>
                       (let r1 = r\<lparr>podWatcher :=
                                   foldl (\<lambda>pw pod. TrackPod pw pod config) (podWatcher r) pods\<rparr>;
                            config1 = config\<lparr>ActivePods := int (length pods)\<rparr>;
                            r2 = (case updateStatus env (clock r1) config1 of
                                    None \<Rightarrow> r1\<lparr>statusWrites := statusWrites r1 @ [config1]\<rparr>
                                  | Some err \<Rightarrow> r1);
                            r3 = stopMonitoring r2 configKey;
                            r4 = startMonitoring r3 config1
                        in (Inr \<lparr>RequeueAfter = 30 * 1000000000\<rparr>, r4)))))"

subsection \<open>Capture and upload\<close>

text \<open>\<^verbatim>\<open>GetPodMetrics\<close> of the collector.\<close>

definition GetPodMetrics ::
  "Env \<Rightarrow> Time \<Rightarrow> string \<Rightarrow> string \<Rightarrow> Pod \<Rightarrow> (error + PodMetrics) \<times> Time" where
  "GetPodMetrics env clk namespace podName pod =
     (let (res, d) = getPodMetrics env clk namespace podName
      in (case res of
            Inl err \<Rightarrow> Inl (''failed to get pod metrics: '' @ err)
          | Inr podMetrics \<Rightarrow> calculateMetrics pod podMetrics,
          clk + int d))"

definition NewS3Uploader :: "Env \<Rightarrow> Time \<Rightarrow> ProfilingConfig \<Rightarrow> error + S3Uploader" where
  "NewS3Uploader env clk config =
     (case loadAWSConfig env clk (Region config) of
        Some err \<Rightarrow> Inl (''failed to load AWS config: '' @ err)
      | None \<Rightarrow> Inr \<lparr>bucket = Bucket config, prefix = Prefix config\<rparr>)"

definition UploadProfile ::
  "Env \<Rightarrow> Time \<Rightarrow> S3Uploader \<Rightarrow> Pod \<Rightarrow> Profile \<Rightarrow> string \<Rightarrow> error option \<times> Time" where
  "UploadProfile env clk u pod profile reason =
     (let (res, d) = putObject env clk (putObjectInput (calendar env) u pod profile reason)
      in (case res of
            Some err \<Rightarrow> Some (''failed to upload to S3: '' @ err)
          | None \<Rightarrow> None,
          clk + int d))"

fun UploadProfiles ::
  "Env \<Rightarrow> Time \<Rightarrow> S3Uploader \<Rightarrow> Pod \<Rightarrow> Profile list \<Rightarrow> string \<Rightarrow> error option \<times> Time" where
  "UploadProfiles env clk u pod [] reason = (None, clk)"
| "UploadProfiles env clk u pod (profile # rest) reason =
     (case UploadProfile env clk u pod profile reason of
        (Some err, clk') \<Rightarrow> (Some err, clk')
      | (None, clk') \<Rightarrow> UploadProfiles env clk' u pod rest reason)"

definition captureAndUpload ::
  "Env \<Rightarrow> Time \<Rightarrow> Pod \<Rightarrow> ProfilingConfig \<Rightarrow> string \<Rightarrow> error option \<times> Time" where
  "captureAndUpload env clk pod config reason =
     (let profileTypes = (if ProfileTypes config = []
                          then [''heap'', ''cpu'', ''goroutine'', ''mutex'']
                          else ProfileTypes config)
      in case CaptureProfiles env clk pod profileTypes of
           (Inl err, clk1) \<Rightarrow> (Some (''failed to capture profiles: '' @ err), clk1)
         | (Inr profiles, clk1) \<Rightarrow>
             (case NewS3Uploader env clk1 config of
                Inl err \<Rightarrow> (Some (''failed to create S3 uploader: '' @ err), clk1)
              | Inr s3Uploader \<Rightarrow>
                  (case UploadProfiles env clk1 s3Uploader pod profiles reason of
                     (Some err, clk2) \<Rightarrow> (Some (''failed to upload profiles: '' @ err), clk2)
                   | (None, clk2) \<Rightarrow> (None, clk2))))"

definition updateProfileStats :: "Env \<Rightarrow> Reconciler \<Rightarrow> ProfilingConfig \<Rightarrow> Reconciler" where
  "updateProfileStats env r config =
     (case getConfig env (clock r) (configKeyOf config) of
        Found latest \<Rightarrow>
          (let now = clock r;
               latest1 = latest\<lparr>LastProfileTime := Some now,
                               TotalProfiles := wrap64 (TotalProfiles latest + 1),
                               TotalUploads := wrap64 (TotalUploads latest + 1)\<rparr>
           in case updateStatus env (clock r) latest1 of
                None \<Rightarrow> r\<lparr>statusWrites := statusWrites r @ [latest1]\<rparr>
              | Some err \<Rightarrow> r)
      | NotFound \<Rightarrow> r
      | GetError err \<Rightarrow> r)"

subsection \<open>The two monitors\<close>

text \<open>The body of the loop of \<^verbatim>\<open>checkPodsThresholds\<close> for one tracked pod.\<close>

definition checkPodThresholds ::
  "Env \<Rightarrow> ProfilingConfig \<Rightarrow> Reconciler \<Rightarrow> TrackedPod \<Rightarrow> Reconciler" where
  "checkPodThresholds env config r tracked =
     (let pod = TPod tracked
      in if \<not> CanProfile (podWatcher r) (clock r) pod (CooldownSeconds config) then r
         else (case GetPodMetrics env (clock r) (Namespace pod) (Name pod) pod of
                 (Inl err, clk1) \<Rightarrow> r\<lparr>clock := clk1\<rparr>
               | (Inr podMetrics, clk1) \<Rightarrow>
                   (case CheckThresholds (format2f env) podMetrics
                           (CPUThresholdPercent config) (MemoryThresholdPercent config) of
                      (False, reason) \<Rightarrow> r\<lparr>clock := clk1\<rparr>
                    | (True, reason) \<Rightarrow>
                        (let r1 = r\<lparr>clock := clk1,
                                   captures := captures r @
                                     [(ByThreshold, getPodKey pod, configKeyOf config,
                                       reason, clk1)]\<rparr>
                         in case captureAndUpload env clk1 pod config reason of
                              (Some err, clk2) \<Rightarrow> r1\<lparr>clock := clk2\<rparr>
                            | (None, clk2) \<Rightarrow>
                                updateProfileStats env
                                  (r1\<lparr>clock := clk2,
                                      podWatcher :=
                                        UpdateLastProfileTime (podWatcher r1) clk2 pod\<rparr>)
                                  config))))"

text \<open>\<^verbatim>\<open>checkPodsThresholds\<close>: one tick of the threshold monitor, over the snapshot of the
  tracked pods taken at its start.\<close>

definition checkPodsThresholds :: "Env \<Rightarrow> Reconciler \<Rightarrow> ProfilingConfig \<Rightarrow> Reconciler" where
  "checkPodsThresholds env r config =
     foldl (checkPodThresholds env config) r (GetTrackedPods (podWatcher r))"

text \<open>The body of the loop of \<^verbatim>\<open>monitorOnDemand\<close> for one tracked pod, and one tick of
  that monitor (the branch \<^verbatim>\<open>case <-ticker.C\<close>).\<close>

definition onDemandPod ::
  "Env \<Rightarrow> ProfilingConfig \<Rightarrow> Reconciler \<Rightarrow> TrackedPod \<Rightarrow> Reconciler" where
  "onDemandPod env config r tracked =
     (let pod = TPod tracked;
          r1 = r\<lparr>captures := captures r @
                   [(ByInterval, getPodKey pod, configKeyOf config, ''on-demand'', clock r)]\<rparr>
      in case captureAndUpload env (clock r) pod config ''on-demand'' of
           (Some err, clk1) \<Rightarrow> r1\<lparr>clock := clk1\<rparr>
         | (None, clk1) \<Rightarrow> updateProfileStats env (r1\<lparr>clock := clk1\<rparr>) config)"

definition onDemandTick :: "Env \<Rightarrow> Reconciler \<Rightarrow> ProfilingConfig \<Rightarrow> Reconciler" where
  "onDemandTick env r config =
     foldl (onDemandPod env config) r (GetTrackedPods (podWatcher r))"

subsection \<open>A cluster for the examples\<close>

text \<open>One configuration (thresholds 30 and 30, cooldown 300 s, one profile kind), one
  running pod that opted in and requests one CPU, and the services of \<open>example_env\<close>,
  where the metrics API reports a CPU usage of 85 percent of that request.\<close>

definition example_config :: ProfilingConfig where
  "example_config =
     \<lparr>CfgName = ''test-config'', CfgNamespace = ''production'',
      SelectorNamespace = ''production'', LabelSelector = [(''app'', ''test-app'')],
      CPUThresholdPercent = 30, MemoryThresholdPercent = 30,
      CheckIntervalSeconds = 10, CooldownSeconds = 300,
      OnDemand = None,
      Bucket = ''test-bucket'', Prefix = ''profiles'', Region = ''us-west-2'', Endpoint = '''',
      ProfileTypes = [''heap''],
      ActivePods = 0, LastProfileTime = None, TotalProfiles = 0, TotalUploads = 0\<rparr>"

definition hot_pod :: Pod where
  "hot_pod =
     test_pod\<lparr>Annotations := [(''bolometer.io/enabled'', ''true'')],
              Containers := [\<lparr>CName = ''app'', Requests = [''cpu'' \<mapsto> 1, ''memory'' \<mapsto> 100]\<rparr>]\<rparr>"

definition cluster_env :: Env where
  "cluster_env =
     example_env
       \<lparr>getConfig := (\<lambda>t key. if key = ''production/test-config'' then Found example_config
                              else NotFound),
        listPods := (\<lambda>t ns sel. if ns = ''production'' then Inr [hot_pod] else Inr [])\<rparr>"

definition seconds :: "int \<Rightarrow> Time" where
  "seconds n = n * 1000000000"

text \<open>A run of the controller on that cluster: a reconcile that tracks the pod, a tick of
  the threshold monitor 10 s later, the periodic reconcile at 30 s, and the next tick at
  40 s; for comparison, the same tick at 40 s without the reconcile before it.\<close>

definition run_tracked :: Reconciler where
  "run_tracked =
     snd (Reconcile cluster_env NewProfilingConfigReconciler ''production'' ''test-config'')"

definition run_first_tick :: Reconciler where
  "run_first_tick =
     checkPodsThresholds cluster_env (run_tracked\<lparr>clock := seconds 10\<rparr>) example_config"

definition run_reconciled :: Reconciler where
  "run_reconciled =
     snd (Reconcile cluster_env (run_first_tick\<lparr>clock := seconds 30\<rparr>)
            ''production'' ''test-config'')"

definition run_second_tick :: Reconciler where
  "run_second_tick =
     checkPodsThresholds cluster_env (run_reconciled\<lparr>clock := seconds 40\<rparr>) example_config"

definition run_second_tick_no_reconcile :: Reconciler where
  "run_second_tick_no_reconcile =
     checkPodsThresholds cluster_env (run_first_tick\<lparr>clock := seconds 40\<rparr>) example_config"

text \<open>Two variations of the cluster: the stored configuration has no bucket; listing the
  pods fails.\<close>

definition no_bucket_env :: Env where
  "no_bucket_env =
     cluster_env\<lparr>getConfig := (\<lambda>t key. Found (example_config\<lparr>Bucket := ''''\<rparr>))\<rparr>"

definition list_fails_env :: Env where
  "list_fails_env = cluster_env\<lparr>listPods := (\<lambda>t ns sel. Inl ''connection refused'')\<rparr>"

text \<open>A log entry of \<open>captures\<close> without its reason.\<close>

definition without_reason ::
  "trigger \<times> string \<times> string \<times> string \<times> Time \<Rightarrow> trigger \<times> string \<times> string \<times> Time" where
  "without_reason e = (case e of (tr, pod, cfg, reason, t) \<Rightarrow> (tr, pod, cfg, t))"

text \<open>The tracking entry of that pod.\<close>

definition hot_entry :: "(string \<times> TrackedPod) list" where
  "hot_entry = [(''production/test-app-abc123-xyz456'', \<lparr>TPod = hot_pod, TConfig = example_config\<rparr>)]"

text \<open>The watcher after that pod has been tracked and a capture of it has been marked at
  10 s.\<close>

definition marked_watcher :: PodWatcher where
  "marked_watcher =
     UpdateLastProfileTime (TrackPod NewPodWatcher hot_pod example_config) (seconds 10) hot_pod"

text \<open>A pod of a ReplicaSet that was created by hand, so that its name carries no hash
  suffix.\<close>

definition frontend_pod :: Pod where
  "frontend_pod =
     \<lparr>Name = ''frontend-b2zdv'', Namespace = ''default'', Labels = [(''tier'', ''frontend'')],
      Annotations = [],
      OwnerReferences = [\<lparr>Kind = ''ReplicaSet'', OName = ''frontend''\<rparr>],
      Containers = [], Phase = ''Running''\<rparr>"

text \<open>What a successful capture-and-upload that returns at the instant \<open>t\<close> makes
  \<^verbatim>\<open>updateProfileStats\<close> write to the status: the configuration the API server returns,
  with the capture instant and both counters advanced; nothing when the configuration cannot
  be fetched or the update is refused.\<close>

definition stats_write :: "Env \<Rightarrow> ProfilingConfig \<Rightarrow> Time \<Rightarrow> ProfilingConfig list" where
  "stats_write env config t =
     (case getConfig env t (configKeyOf config) of
        Found latest \<Rightarrow>
          (case updateStatus env t
                  (latest\<lparr>LastProfileTime := Some t,
                          TotalProfiles := wrap64 (TotalProfiles latest + 1),
                          TotalUploads := wrap64 (TotalUploads latest + 1)\<rparr>) of
             None \<Rightarrow> [latest\<lparr>LastProfileTime := Some t,
                              TotalProfiles := wrap64 (TotalProfiles latest + 1),
                              TotalUploads := wrap64 (TotalUploads latest + 1)\<rparr>]
           | Some err \<Rightarrow> [])
      | NotFound \<Rightarrow> []
      | GetError err \<Rightarrow> [])"

text \<open>The calls of \<^verbatim>\<open>captureAndUpload\<close> with the reason \<^verbatim>\<open>on-demand\<close>, one per pod of a
  list and one after the other from the instant \<open>t\<close> on: for each pod the instant of the
  call, its error (\<open>None\<close> on success) and the instant at which it returns, which is the
  instant of the next call.\<close>

fun on_demand_schedule ::
  "Env \<Rightarrow> ProfilingConfig \<Rightarrow> Time \<Rightarrow> TrackedPod list \<Rightarrow> (Time \<times> error option \<times> Time) list" where
  "on_demand_schedule env config t [] = []"
| "on_demand_schedule env config t (tracked # rest) =
     (let res = captureAndUpload env t (TPod tracked) config ''on-demand''
      in (t, fst res, snd res) # on_demand_schedule env config (snd res) rest)"

section \<open>Theorems\<close>

subsection \<open>C9: the kind-to-endpoint table\<close>

text \<open>C9 (as stated) says that the kind named \<^verbatim>\<open>thread-create\<close> maps to
  \<^verbatim>\<open>/debug/pprof/threadcreate\<close>. The switch of \<^verbatim>\<open>getProfileEndpoint\<close> has no case
  for the hyphenated name, so it falls into the default branch.\<close>

theorem getProfileEndpoint_thread_create_counterexample:
  "getProfileEndpoint ''thread-create'' \<noteq> ''/debug/pprof/threadcreate''"
  by (simp add: getProfileEndpoint_def)

text \<open>C9 (amended): heap, cpu, goroutine, mutex and block map to their listed paths, the
  kind spelled \<^verbatim>\<open>threadcreate\<close> maps to \<^verbatim>\<open>/debug/pprof/threadcreate\<close>, and every
  other kind \<open>k\<close> (the hyphenated \<^verbatim>\<open>thread-create\<close> among them) maps to
  \<^verbatim>\<open>/debug/pprof/<k>\<close>.\<close>

theorem getProfileEndpoint_table:
  "getProfileEndpoint ''heap'' = ''/debug/pprof/heap'' \<and>
   getProfileEndpoint ''cpu'' = ''/debug/pprof/profile?seconds=30'' \<and>
   getProfileEndpoint ''goroutine'' = ''/debug/pprof/goroutine'' \<and>
   getProfileEndpoint ''mutex'' = ''/debug/pprof/mutex'' \<and>
   getProfileEndpoint ''block'' = ''/debug/pprof/block'' \<and>
   getProfileEndpoint ''threadcreate'' = ''/debug/pprof/threadcreate'' \<and>
   (k \<notin> {''heap'', ''cpu'', ''goroutine'', ''mutex'', ''block'', ''threadcreate''} \<longrightarrow>
      getProfileEndpoint k = ''/debug/pprof/'' @ k)"
  by (simp add: getProfileEndpoint_def)

theorem getProfileEndpoint_table_witness:
  "getProfileEndpoint ''thread-create'' = ''/debug/pprof/thread-create''"
proof -
  have h: "''thread-create'' \<notin> {''heap'', ''cpu'', ''goroutine'', ''mutex'', ''block'', ''threadcreate''}"
    by simp
  from getProfileEndpoint_table [of "''thread-create''"] h show ?thesis
    by simp
qed

subsection \<open>C4: the threshold test\<close>

text \<open>C4: for sampled percentages \<open>cpu\<close>, \<open>mem\<close> and integer thresholds \<open>ct\<close>, \<open>mt\<close> the
  test reports exceeded exactly when \<open>cpu > ct\<close> or \<open>mem > mt\<close>, the inequality being
  strict (a percentage equal to its threshold is not exceeded), and when both exceed the
  reason is the one that cites the CPU.\<close>

theorem CheckThresholds_exceeded_iff:
  "fst (CheckThresholds fmt2f
          \<lparr>CPUUsagePercent = Fin cpu, MemoryUsagePercent = Fin mem,
           CPUUsage = cu, MemoryUsage = mu\<rparr> ct mt)
     = (real_of_int ct < cpu \<or> real_of_int mt < mem) \<and>
   (cpu = real_of_int ct \<and> mem = real_of_int mt \<longrightarrow>
      \<not> fst (CheckThresholds fmt2f
          \<lparr>CPUUsagePercent = Fin cpu, MemoryUsagePercent = Fin mem,
           CPUUsage = cu, MemoryUsage = mu\<rparr> ct mt)) \<and>
   (real_of_int ct < cpu \<and> real_of_int mt < mem \<longrightarrow>
      snd (CheckThresholds fmt2f
          \<lparr>CPUUsagePercent = Fin cpu, MemoryUsagePercent = Fin mem,
           CPUUsage = cu, MemoryUsage = mu\<rparr> ct mt)
        = ''CPU usage '' @ fmt2f (Fin cpu) @ ''% exceeds threshold '' @ itoa ct @ ''%'')"
  by (simp add: CheckThresholds_def f64_of_int_def)

theorem CheckThresholds_exceeded_iff_witness:
  "fst (CheckThresholds (\<lambda>x. ''85.00'')
          \<lparr>CPUUsagePercent = Fin 85, MemoryUsagePercent = Fin 95,
           CPUUsage = 0, MemoryUsage = 0\<rparr> 80 90) \<and>
   \<not> fst (CheckThresholds (\<lambda>x. ''85.00'')
          \<lparr>CPUUsagePercent = Fin 80, MemoryUsagePercent = Fin 90,
           CPUUsage = 0, MemoryUsage = 0\<rparr> 80 90) \<and>
   snd (CheckThresholds (\<lambda>x. ''85.00'')
          \<lparr>CPUUsagePercent = Fin 85, MemoryUsagePercent = Fin 95,
           CPUUsage = 0, MemoryUsage = 0\<rparr> 80 90)
     = ''CPU usage 85.00% exceeds threshold 80%''"
proof -
  have i: "itoa 80 = ''80''"
    by (simp add: itoa_def itoa_nat.simps digit_def)
  from CheckThresholds_exceeded_iff [of "\<lambda>x. ''85.00''" 85 95 0 0 80 90]
       CheckThresholds_exceeded_iff [of "\<lambda>x. ''85.00''" 80 90 0 0 80 90] i
  show ?thesis by simp
qed

subsection \<open>C10: a zero aggregate request gives a zero percentage\<close>

lemma aggregate_sum:
  "aggregate r cs acc = acc + (\<Sum>c\<leftarrow>cs. case c r of Some q \<Rightarrow> q | None \<Rightarrow> 0)"
  by (induction cs arbitrary: acc) (auto split: option.splits)

text \<open>C10: if the requests of a resource, summed over the containers of the pod, are zero,
  then \<^verbatim>\<open>calculateMetrics\<close> returns a result (no error) whose percentage for that resource
  is the finite number 0: no quotient by zero (an infinity or a NaN) is formed.\<close>

theorem calculateMetrics_zero_request:
  "\<exists>m. calculateMetrics pod podMetrics = Inr m \<and>
     ((\<Sum>c\<leftarrow>Containers pod. case Requests c ''cpu'' of Some q \<Rightarrow> q | None \<Rightarrow> 0) = 0
        \<longrightarrow> CPUUsagePercent m = Fin 0) \<and>
     ((\<Sum>c\<leftarrow>Containers pod. case Requests c ''memory'' of Some q \<Rightarrow> q | None \<Rightarrow> 0) = 0
        \<longrightarrow> MemoryUsagePercent m = Fin 0)"
  by (simp add: calculateMetrics_def Let_def aggregate_sum IsZero_def ResourceCPU_def
      ResourceMemory_def comp_def)

theorem calculateMetrics_zero_request_witness:
  "\<exists>m. calculateMetrics
          \<lparr>Name = ''web-0'', Namespace = ''default'', Labels = [], Annotations = [],
           OwnerReferences = [],
           Containers = [\<lparr>CName = ''app'', Requests = Map.empty\<rparr>,
                         \<lparr>CName = ''sidecar'', Requests = [''memory'' \<mapsto> 64]\<rparr>],
           Phase = ''Running''\<rparr>
          [\<lparr>MName = ''app'', Usage = [''cpu'' \<mapsto> 1 / 4, ''memory'' \<mapsto> 32]\<rparr>]
        = Inr m \<and> CPUUsagePercent m = Fin 0 \<and> MemoryUsagePercent m = Fin 50"
proof -
  let ?pod = "\<lparr>Name = ''web-0'', Namespace = ''default'', Labels = [], Annotations = [],
           OwnerReferences = [],
           Containers = [\<lparr>CName = ''app'', Requests = Map.empty\<rparr>,
                         \<lparr>CName = ''sidecar'', Requests = [''memory'' \<mapsto> 64]\<rparr>],
           Phase = ''Running''\<rparr>"
  let ?pm = "[\<lparr>MName = ''app'', Usage = [''cpu'' \<mapsto> 1 / 4, ''memory'' \<mapsto> 32]\<rparr>]"
  have h: "(\<Sum>c\<leftarrow>Containers ?pod. case Requests c ''cpu'' of Some q \<Rightarrow> q | None \<Rightarrow> 0) = 0"
    by simp
  from calculateMetrics_zero_request [of ?pod ?pm] obtain m where
    m: "calculateMetrics ?pod ?pm = Inr m" and
    z: "(\<Sum>c\<leftarrow>Containers ?pod. case Requests c ''cpu'' of Some q \<Rightarrow> q | None \<Rightarrow> 0) = 0
          \<longrightarrow> CPUUsagePercent m = Fin 0"
    by blast
  from z h have c: "CPUUsagePercent m = Fin 0" by blast
  have "MemoryUsagePercent m = Fin 50"
    using m by (auto simp: calculateMetrics_def Let_def IsZero_def ResourceCPU_def
        ResourceMemory_def Value_def MilliValue_def f64_of_int_def)
  with m c show ?thesis by blast
qed

text \<open>For a pod none of whose requests is negative, both percentages that
  \<^verbatim>\<open>calculateMetrics\<close> returns are finite numbers: these are the sampled percentages the
  threshold test receives.\<close>

lemma request_sum_nonneg:
  "\<forall>c \<in> set cs. \<forall>q. Requests c r = Some q \<longrightarrow> 0 \<le> q \<Longrightarrow>
   0 \<le> (\<Sum>c\<leftarrow>cs. case Requests c r of Some q \<Rightarrow> q | None \<Rightarrow> 0)"
  by (rule sum_list_nonneg) (auto split: option.splits)

lemma percent_finite:
  "0 < b \<Longrightarrow> \<exists>x. f64_mul (f64_div (f64_of_int a) (f64_of_int \<lceil>b :: rat\<rceil>)) (Fin 100) = Fin x"
proof -
  assume "0 < b"
  then have "0 < \<lceil>b\<rceil>" by simp
  then have "\<lceil>b\<rceil> \<noteq> 0" by linarith
  then show ?thesis by (simp add: f64_of_int_def)
qed

lemma calculateMetrics_finite:
  assumes "\<forall>c \<in> set (Containers pod). \<forall>q. Requests c ''cpu'' = Some q \<longrightarrow> 0 \<le> q"
    and "\<forall>c \<in> set (Containers pod). \<forall>q. Requests c ''memory'' = Some q \<longrightarrow> 0 \<le> q"
  shows "\<exists>m cpu mem. calculateMetrics pod podMetrics = Inr m \<and>
           CPUUsagePercent m = Fin cpu \<and> MemoryUsagePercent m = Fin mem"
proof -
  let ?c = "\<Sum>c\<leftarrow>Containers pod. case Requests c ''cpu'' of Some q \<Rightarrow> q | None \<Rightarrow> 0"
  let ?m = "\<Sum>c\<leftarrow>Containers pod. case Requests c ''memory'' of Some q \<Rightarrow> q | None \<Rightarrow> 0"
  have c: "0 \<le> ?c" using assms(1) by (rule request_sum_nonneg)
  have m: "0 \<le> ?m" using assms(2) by (rule request_sum_nonneg)
  have pc: "?c \<noteq> 0 \<Longrightarrow> \<exists>x. f64_mul (f64_div (f64_of_int a) (f64_of_int \<lceil>?c * 1000\<rceil>)) (Fin 100) = Fin x" for a
    using c by (intro percent_finite) simp
  have pm: "?m \<noteq> 0 \<Longrightarrow> \<exists>x. f64_mul (f64_div (f64_of_int a) (f64_of_int \<lceil>?m\<rceil>)) (Fin 100) = Fin x" for a
    using m by (intro percent_finite) simp
  show ?thesis
    using pc pm
    by (simp add: calculateMetrics_def Let_def aggregate_sum IsZero_def ResourceCPU_def
        ResourceMemory_def comp_def MilliValue_def Value_def)
qed

subsection \<open>C5: service-name derivation\<close>

















text \<open>The case the statement above leaves out. The loop that looks for the last dash of a
  ReplicaSet owner's name starts from \<^verbatim>\<open>lastDash := len(name) - 1\<close>, where the loop over the
  pod name starts from \<open>-1\<close>; a name without a dash therefore loses its last character
  instead of being returned whole.\<close>

lemma getServiceName_dashless_replicaset:
  "getServiceName frontend_pod = ''fronten''"
  by (simp add: getServiceName_def nonEmptyLabel_def frontend_pod_def)

subsection \<open>C6: object keys and metadata\<close>

text \<open>Splitting, joining and cleaning paths whose segments are ordinary names.\<close>

lemma split_slash_not_Nil: "split_slash s \<noteq> []"
  by (induction s) (auto split: list.splits)

lemma split_slash_no_slash: "CHR ''/'' \<notin> set s \<Longrightarrow> split_slash s = [s]"
  by (induction s) auto

lemma split_slash_append_slash:
  "split_slash (a @ CHR ''/'' # b) = split_slash a @ split_slash b"
  using split_slash_not_Nil by (induction a) (auto split: list.splits)

lemma foldl_clean_step_plain:
  "\<forall>c \<in> set cs. c = '''' \<or> plain c \<Longrightarrow>
   foldl (clean_step rooted) out cs = out @ filter (\<lambda>s. s \<noteq> '''') cs"
  by (induction cs arbitrary: out) (auto simp: clean_step_def plain_def)

lemma join_slash_not_empty: "xs \<noteq> [] \<Longrightarrow> hd xs \<noteq> '''' \<Longrightarrow> join_slash xs \<noteq> ''''"
  by (induction xs rule: join_slash.induct) auto

lemma digit_not_slash: "d < 10 \<Longrightarrow> digit d \<noteq> CHR ''/''"
proof -
  assume "d < 10"
  then have "d \<in> {0, 1, 2, 3, 4, 5, 6, 7, 8, 9}" by auto
  then show ?thesis by (auto simp: digit_def)
qed

lemma digit_not_slash': "d < 10 \<Longrightarrow> CHR ''/'' \<noteq> digit d"
  using digit_not_slash [of d] by auto

lemma itoa_nat_no_slash: "CHR ''/'' \<notin> set (itoa_nat n)"
proof (induction n rule: itoa_nat.induct)
  case (1 n)
  show ?case
  proof (cases "n < 10")
    case True
    then show ?thesis by (subst itoa_nat.simps) (simp add: digit_not_slash')
  next
    case False
    with 1 show ?thesis by (subst itoa_nat.simps) (simp add: digit_not_slash')
  qed
qed

lemma appendInt_no_slash: "CHR ''/'' \<notin> set (appendInt x w)"
  by (simp add: appendInt_def Let_def itoa_nat_no_slash)

lemma length_appendInt: "w \<le> length (appendInt x w)"
  by (simp add: appendInt_def Let_def)

lemma layout_date_no_slash: "CHR ''/'' \<notin> set (layout_date c)"
  by (simp add: layout_date_def appendInt_no_slash)

lemma layout_compact_no_slash: "CHR ''/'' \<notin> set (layout_compact c)"
  by (simp add: layout_compact_def appendInt_no_slash)

lemma length_layout_date: "10 \<le> length (layout_date c)"
  using length_appendInt [of 4 "year c"] length_appendInt [of 2 "int (month c)"]
    length_appendInt [of 2 "int (day c)"]
  by (simp add: layout_date_def)

lemma plain_long: "CHR ''/'' \<notin> set s \<Longrightarrow> 3 \<le> length s \<Longrightarrow> plain s"
  by (auto simp: plain_def)

lemma plain_layout_date: "plain (layout_date c)"
  using length_layout_date [of c] by (intro plain_long layout_date_no_slash) simp

lemma plain_filename:
  "CHR ''/'' \<notin> set k \<Longrightarrow> plain (layout_compact c @ ''-'' @ k @ ''.pprof'')"
  by (rule plain_long) (auto simp: layout_compact_no_slash)

lemma Join_plain:
  assumes p: "\<forall>c \<in> set (split_slash pfx). c = '''' \<or> plain c"
    and d: "plain d" and s: "s = '''' \<or> plain s" and f: "plain f"
  shows "filepath_Join [pfx, d, s, f] =
     (if take 1 pfx = ''/'' then ''/'' else '''')
     @ join_slash (filter (\<lambda>s. s \<noteq> '''') (split_slash pfx @ [d, s, f]))"
proof -
  have dn: "d \<noteq> ''''" and ds: "CHR ''/'' \<notin> set d" and fn: "f \<noteq> ''''"
    and fs: "CHR ''/'' \<notin> set f" and ss: "CHR ''/'' \<notin> set s"
    using d f s by (auto simp: plain_def)
  have tail: "\<forall>c \<in> set [d, s, f]. c = '''' \<or> plain c"
    using d s f by auto
  show ?thesis
  proof (cases "pfx = ''''")
    case True
    have sp: "split_slash (join_slash [d, s, f]) = [d, s, f]"
      using ds ss fs by (simp add: split_slash_append_slash split_slash_no_slash)
    have hd: "hd (d @ CHR ''/'' # s @ CHR ''/'' # f) \<noteq> CHR ''/''"
      using dn ds by (cases d) auto
    have ne: "join_slash (filter (\<lambda>s. s \<noteq> '''') [d, s, f]) \<noteq> ''''"
      using dn by (intro join_slash_not_empty) auto
    have "Clean (join_slash [d, s, f]) = join_slash (filter (\<lambda>s. s \<noteq> '''') [d, s, f])"
      unfolding Clean_def Let_def sp foldl_clean_step_plain [OF tail]
      using hd ne dn by simp
    with True dn show ?thesis
      by (simp add: filepath_Join_def)
  next
    case False
    have sp: "split_slash (join_slash [pfx, d, s, f]) = split_slash pfx @ [d, s, f]"
      using ds ss fs by (simp add: split_slash_append_slash split_slash_no_slash)
    have all: "\<forall>c \<in> set (split_slash pfx @ [d, s, f]). c = '''' \<or> plain c"
      using p tail by auto
    have hd: "(hd (join_slash [pfx, d, s, f]) = CHR ''/'') = (take 1 pfx = ''/'')"
      using False by (cases pfx) auto
    have ne: "join_slash (filter (\<lambda>s. s \<noteq> '''') (split_slash pfx @ [d, s, f])) \<noteq> ''''"
    proof (rule join_slash_not_empty)
      show "filter (\<lambda>s. s \<noteq> '''') (split_slash pfx @ [d, s, f]) \<noteq> []"
        using dn by simp
      have "\<forall>x \<in> set (filter (\<lambda>s. s \<noteq> '''') (split_slash pfx @ [d, s, f])). x \<noteq> ''''"
        by auto
      moreover have "filter (\<lambda>s. s \<noteq> '''') (split_slash pfx @ [d, s, f]) \<noteq> []"
        using dn by simp
      ultimately show "hd (filter (\<lambda>s. s \<noteq> '''') (split_slash pfx @ [d, s, f])) \<noteq> ''''"
        using hd_in_set by blast
    qed
    have jn: "join_slash [pfx, d, s, f] \<noteq> ''''"
      using False by simp
    have "Clean (join_slash [pfx, d, s, f]) =
        (if take 1 pfx = ''/'' then ''/'' else '''')
        @ join_slash (filter (\<lambda>s. s \<noteq> '''') (split_slash pfx @ [d, s, f]))"
      unfolding Clean_def Let_def sp foldl_clean_step_plain [OF all] hd
      using ne jn by simp
    with False show ?thesis
      by (simp add: filepath_Join_def)
  qed
qed

lemma split_slash_join_plain:
  "xs \<noteq> [] \<Longrightarrow> \<forall>x \<in> set xs. CHR ''/'' \<notin> set x \<Longrightarrow> split_slash (join_slash xs) = xs"
  by (induction xs rule: join_slash.induct)
     (auto simp: split_slash_append_slash split_slash_no_slash)

lemma foldl_label_other:
  "\<forall>k. ''pod-label-'' @ k \<noteq> key \<Longrightarrow>
   foldl (\<lambda>m (k, v). m(''pod-label-'' @ k \<mapsto> v)) m ls key = m key"
  by (induction ls arbitrary: m) (auto split: prod.splits)

lemma PMetadata_fixed:
  assumes "\<forall>k. ''pod-label-'' @ k \<noteq> key"
  shows "PMetadata (putObjectInput civil u pod profile reason) key =
     [''pod-name'' \<mapsto> Name pod,
      ''pod-namespace'' \<mapsto> Namespace pod,
      ''profile-type'' \<mapsto> PType profile,
      ''reason'' \<mapsto> reason,
      ''timestamp'' \<mapsto> layout_RFC3339 (civil (Timestamp profile))] key"
  unfolding putObjectInput_def Let_def PutObjectInput.select_convs
  by (rule foldl_label_other [OF assms])

text \<open>C6 (amended): for a prefix whose \<^verbatim>\<open>/\<close>-separated segments are empty or ordinary
  names (neither \<^verbatim>\<open>.\<close> nor \<^verbatim>\<open>..\<close>), a service name that is empty or an ordinary name,
  and a kind \<open>k\<close> without \<^verbatim>\<open>/\<close>, the key of a profile of kind \<open>k\<close> captured at \<open>ts\<close> is
  \<^verbatim>\<open><prefix>/<YYYY-MM-DD>/<service-name>/<YYYYMMDD-HHMMSS>-<k>.pprof\<close> with the empty segments
  left out (a leading \<^verbatim>\<open>/\<close> of the prefix is kept); the segment that follows those of the
  prefix is the date of \<open>ts\<close>; and the metadata hold \<^verbatim>\<open>profile-type\<close> = \<open>k\<close> and
  \<^verbatim>\<open>timestamp\<close> = \<open>ts\<close> in RFC 3339 format.\<close>

theorem generateKey_format:
  assumes "\<forall>c \<in> set (split_slash (prefix u)). c = '''' \<or> plain c"
    and "getServiceName pod = '''' \<or> plain (getServiceName pod)"
    and "CHR ''/'' \<notin> set (PType profile)"
  shows "PKey (putObjectInput civil u pod profile reason) =
           (if take 1 (prefix u) = ''/'' then ''/'' else '''') @
           join_slash (filter (\<lambda>s. s \<noteq> '''')
             (split_slash (prefix u) @
              [layout_date (civil (Timestamp profile)), getServiceName pod,
               layout_compact (civil (Timestamp profile)) @ ''-'' @ PType profile @ ''.pprof'']))
       \<and> split_slash (PKey (putObjectInput civil u pod profile reason)) =
           (if take 1 (prefix u) = ''/'' then [''''] else []) @
           filter (\<lambda>s. s \<noteq> '''') (split_slash (prefix u)) @
           [layout_date (civil (Timestamp profile))] @
           filter (\<lambda>s. s \<noteq> '''') [getServiceName pod] @
           [layout_compact (civil (Timestamp profile)) @ ''-'' @ PType profile @ ''.pprof'']
       \<and> PMetadata (putObjectInput civil u pod profile reason) ''profile-type''
           = Some (PType profile)
       \<and> PMetadata (putObjectInput civil u pod profile reason) ''timestamp''
           = Some (layout_RFC3339 (civil (Timestamp profile)))"
proof -
  let ?d = "layout_date (civil (Timestamp profile))"
  let ?s = "getServiceName pod"
  let ?f = "layout_compact (civil (Timestamp profile)) @ ''-'' @ PType profile @ ''.pprof''"
  let ?segs = "filter (\<lambda>s. s \<noteq> '''') (split_slash (prefix u) @ [?d, ?s, ?f])"
  have d: "plain ?d" by (rule plain_layout_date)
  have f: "plain ?f" using assms(3) by (rule plain_filename)
  have key: "PKey (putObjectInput civil u pod profile reason) =
      (if take 1 (prefix u) = ''/'' then ''/'' else '''') @ join_slash ?segs"
    using Join_plain [OF assms(1) d assms(2) f]
    by (simp add: putObjectInput_def generateKey_def Let_def)
  have ne: "?segs \<noteq> []" using d by (simp add: plain_def)
  have ns: "\<forall>x \<in> set ?segs. CHR ''/'' \<notin> set x"
    using assms(1) assms(2) d f by (auto simp: plain_def)
  have sp: "split_slash (join_slash ?segs) = ?segs"
    using ne ns by (rule split_slash_join_plain)
  have dn: "?d \<noteq> ''''" and fn: "?f \<noteq> ''''" using d f by (auto simp: plain_def)
  have segs: "split_slash (PKey (putObjectInput civil u pod profile reason)) =
           (if take 1 (prefix u) = ''/'' then [''''] else []) @
           filter (\<lambda>s. s \<noteq> '''') (split_slash (prefix u)) @ [?d] @
           filter (\<lambda>s. s \<noteq> '''') [?s] @ [?f]"
    unfolding key using sp dn fn by simp
  have m1: "PMetadata (putObjectInput civil u pod profile reason) ''profile-type''
           = Some (PType profile)"
    by (subst PMetadata_fixed) simp_all
  have m2: "PMetadata (putObjectInput civil u pod profile reason) ''timestamp''
           = Some (layout_RFC3339 (civil (Timestamp profile)))"
    by (subst PMetadata_fixed) simp_all
  from key segs m1 m2 show ?thesis by blast
qed

theorem generateKey_format_witness:
  "PKey (putObjectInput test_civil \<lparr>bucket = ''test-bucket'', prefix = ''profiles''\<rparr> test_pod
           \<lparr>PType = ''heap'', Data = ''test data'', Timestamp = 0\<rparr> ''threshold-exceeded'')
     = ''profiles/2024-01-15/test-app/20240115-123045-heap.pprof'' \<and>
   PMetadata (putObjectInput test_civil \<lparr>bucket = ''test-bucket'', prefix = ''profiles''\<rparr> test_pod
           \<lparr>PType = ''heap'', Data = ''test data'', Timestamp = 0\<rparr> ''threshold-exceeded'')
       ''profile-type'' = Some ''heap'' \<and>
   PMetadata (putObjectInput test_civil \<lparr>bucket = ''test-bucket'', prefix = ''profiles''\<rparr> test_pod
           \<lparr>PType = ''heap'', Data = ''test data'', Timestamp = 0\<rparr> ''threshold-exceeded'')
       ''timestamp'' = Some ''2024-01-15T12:30:45Z''"
proof -
  let ?u = "\<lparr>bucket = ''test-bucket'', prefix = ''profiles''\<rparr>"
  let ?p = "\<lparr>PType = ''heap'', Data = ''test data'', Timestamp = 0\<rparr>"
  have svc: "getServiceName test_pod = ''test-app''"
    by (simp add: getServiceName_def nonEmptyLabel_def test_pod_def)
  have h1: "\<forall>c \<in> set (split_slash (prefix ?u)). c = '''' \<or> plain c"
    by (simp add: plain_def)
  have h2: "getServiceName test_pod = '''' \<or> plain (getServiceName test_pod)"
    by (simp add: svc plain_def)
  have h3: "CHR ''/'' \<notin> set (PType ?p)"
    by simp
  have n: "itoa_nat 2024 = ''2024''" "itoa_nat 1 = ''1''" "itoa_nat 15 = ''15''"
    "itoa_nat 12 = ''12''" "itoa_nat 30 = ''30''" "itoa_nat 45 = ''45''"
    "itoa_nat (Suc 0) = ''1''"
    by (simp_all add: itoa_nat.simps digit_def)
  from generateKey_format [OF h1 h2 h3, of test_civil "''threshold-exceeded''"]
  show ?thesis
    by (simp add: svc n test_civil_def layout_date_def layout_compact_def layout_RFC3339_def
        layout_zone_def appendInt_def)
qed

text \<open>C6 (as stated) holds for every prefix. The key is built with \<^verbatim>\<open>filepath.Join\<close>,
  which cleans the path: with the prefix \<^verbatim>\<open>./profiles\<close> the key starts with
  \<^verbatim>\<open>profiles/\<close>, not with the prefix.\<close>

theorem generateKey_dot_prefix_counterexample:
  "generateKey test_civil \<lparr>bucket = ''test-bucket'', prefix = ''./profiles''\<rparr> test_pod
      \<lparr>PType = ''heap'', Data = ''test data'', Timestamp = 0\<rparr>
   \<noteq> spec_key ''./profiles'' (layout_date (test_civil 0)) (getServiceName test_pod)
        (layout_compact (test_civil 0) @ ''-heap.pprof'')"
proof -
  have svc: "getServiceName test_pod = ''test-app''"
    by (simp add: getServiceName_def nonEmptyLabel_def test_pod_def)
  have n: "itoa_nat 2024 = ''2024''" "itoa_nat 1 = ''1''" "itoa_nat 15 = ''15''"
    "itoa_nat 12 = ''12''" "itoa_nat 30 = ''30''" "itoa_nat 45 = ''45''"
    "itoa_nat (Suc 0) = ''1''"
    by (simp_all add: itoa_nat.simps digit_def)
  have k: "generateKey test_civil \<lparr>bucket = ''test-bucket'', prefix = ''./profiles''\<rparr> test_pod
      \<lparr>PType = ''heap'', Data = ''test data'', Timestamp = 0\<rparr>
      = ''profiles/2024-01-15/test-app/20240115-123045-heap.pprof''"
    by (simp add: generateKey_def svc n test_civil_def layout_date_def layout_compact_def
        appendInt_def filepath_Join_def Clean_def clean_step_def)
  have s: "spec_key ''./profiles'' (layout_date (test_civil 0)) (getServiceName test_pod)
        (layout_compact (test_civil 0) @ ''-heap.pprof'')
      = ''./profiles/2024-01-15/test-app/20240115-123045-heap.pprof''"
    by (simp add: spec_key_def svc n test_civil_def layout_date_def layout_compact_def
        appendInt_def)
  show ?thesis unfolding k s by simp
qed

subsection \<open>C8: a capture succeeds for all kinds or fails\<close>

lemma captureProfile_clock:
  "snd (captureProfile env clk lp k) = clk + int (snd (httpGet env clk (profileURL lp k)))"
  by (simp add: captureProfile_def Let_def split: prod.splits)

lemma captureProfile_Inr:
  "fst (captureProfile env clk lp k) = Inr p \<Longrightarrow>
   PType p = k \<and> Timestamp p = clk + int (snd (httpGet env clk (profileURL lp k))) \<and>
   (\<exists>resp. fst (httpGet env clk (profileURL lp k)) = Inr resp \<and> StatusCode resp = StatusOK)"
  by (auto simp: captureProfile_def Let_def split: prod.splits sum.splits if_splits)

lemma captureProfile_status:
  "fst (httpGet env clk (profileURL lp k)) = Inr resp \<Longrightarrow> StatusCode resp \<noteq> StatusOK \<Longrightarrow>
   \<exists>err. fst (captureProfile env clk lp k) = Inl err"
  by (auto simp: captureProfile_def Let_def split: prod.splits)

lemma captureLoop_fails:
  "i < length kinds \<Longrightarrow>
   fst (httpGet env (fst (timeline env clk lp kinds ! i)) (profileURL lp (kinds ! i))) = Inr resp \<Longrightarrow>
   StatusCode resp \<noteq> StatusOK \<Longrightarrow>
   \<exists>err. fst (captureLoop env clk lp kinds acc) = Inl err"
proof (induction kinds arbitrary: clk acc i)
  case Nil
  then show ?case by simp
next
  case (Cons k ks)
  obtain res clk' where cp: "captureProfile env clk lp k = (res, clk')"
    by (cases "captureProfile env clk lp k")
  have clk': "clk' = clk + int (snd (httpGet env clk (profileURL lp k)))"
    using captureProfile_clock [of env clk lp k] cp by simp
  show ?case
  proof (cases res)
    case (Inl err)
    with cp show ?thesis by simp
  next
    case (Inr p)
    show ?thesis
    proof (cases i)
      case 0
      with Cons.prems captureProfile_status [of env clk lp k resp] cp Inr show ?thesis
        by (simp add: Let_def)
    next
      case (Suc j)
      with Cons.prems have "j < length ks"
        and "fst (httpGet env (fst (timeline env clk' lp ks ! j)) (profileURL lp (ks ! j))) = Inr resp"
        by (simp_all add: Let_def clk')
      from Cons.IH [OF this Cons.prems(3)] cp Inr show ?thesis by simp
    qed
  qed
qed

lemma captureLoop_succeeds:
  "fst (captureLoop env clk lp kinds acc) = Inr ps \<Longrightarrow>
   map PType ps = map PType acc @ kinds \<and>
   map Timestamp ps = map Timestamp acc @ map snd (timeline env clk lp kinds)"
proof (induction kinds arbitrary: clk acc)
  case Nil
  then show ?case by simp
next
  case (Cons k ks)
  obtain res clk' where cp: "captureProfile env clk lp k = (res, clk')"
    by (cases "captureProfile env clk lp k")
  have clk': "clk' = clk + int (snd (httpGet env clk (profileURL lp k)))"
    using captureProfile_clock [of env clk lp k] cp by simp
  show ?case
  proof (cases res)
    case (Inl err)
    with cp Cons.prems show ?thesis by simp
  next
    case (Inr p)
    with cp Cons.prems have "fst (captureLoop env clk' lp ks (acc @ [p])) = Inr ps" by simp
    from Cons.IH [OF this] captureProfile_Inr [of env clk lp k p] cp Inr clk'
    show ?thesis by (simp add: Let_def)
  qed
qed

lemma CaptureProfiles_no_tunnel:
  "tunnel env clk pod = None \<Longrightarrow> \<exists>err. fst (CaptureProfiles env clk pod kinds) = Inl err"
  by (auto simp: tunnel_def CaptureProfiles_def Let_def
      split: prod.splits sum.splits select_outcome.splits)

lemma CaptureProfiles_tunnel:
  "tunnel env clk pod = Some (lp, t0) \<Longrightarrow>
   CaptureProfiles env clk pod kinds = captureLoop env t0 lp kinds []"
  by (auto simp: tunnel_def CaptureProfiles_def Let_def
      split: prod.splits sum.splits select_outcome.splits)

text \<open>C8: a capture whose tunnel does not come up fails. Once the tunnel is up, if the
  request of any requested kind is answered with a status other than 200, the capture
  fails and returns an error in place of the profiles (none of those already fetched is
  returned); and a capture that succeeds returns one profile per requested kind, in the
  requested order, the timestamp of each being the instant at which the body of its
  response had been read.\<close>

theorem CaptureProfiles_all_or_nothing:
  "(tunnel env clk pod = None \<longrightarrow> (\<exists>err. fst (CaptureProfiles env clk pod kinds) = Inl err)) \<and>
   (\<forall>lp t0. tunnel env clk pod = Some (lp, t0) \<longrightarrow>
      ((\<exists>i < length kinds. \<exists>resp.
           fst (httpGet env (fst (timeline env t0 lp kinds ! i)) (profileURL lp (kinds ! i)))
             = Inr resp \<and> StatusCode resp \<noteq> 200)
        \<longrightarrow> (\<exists>err. fst (CaptureProfiles env clk pod kinds) = Inl err)) \<and>
      (\<forall>ps. fst (CaptureProfiles env clk pod kinds) = Inr ps \<longrightarrow>
           map PType ps = kinds \<and> map Timestamp ps = map snd (timeline env t0 lp kinds)))"
proof (intro conjI allI impI)
  assume "tunnel env clk pod = None"
  then show "\<exists>err. fst (CaptureProfiles env clk pod kinds) = Inl err"
    by (rule CaptureProfiles_no_tunnel)
next
  fix lp t0
  assume t: "tunnel env clk pod = Some (lp, t0)"
  assume "\<exists>i < length kinds. \<exists>resp.
           fst (httpGet env (fst (timeline env t0 lp kinds ! i)) (profileURL lp (kinds ! i)))
             = Inr resp \<and> StatusCode resp \<noteq> 200"
  then obtain i resp where "i < length kinds"
    and "fst (httpGet env (fst (timeline env t0 lp kinds ! i)) (profileURL lp (kinds ! i))) = Inr resp"
    and "StatusCode resp \<noteq> StatusOK"
    by (auto simp: StatusOK_def)
  from captureLoop_fails [OF this]
  show "\<exists>err. fst (CaptureProfiles env clk pod kinds) = Inl err"
    by (simp add: CaptureProfiles_tunnel [OF t])
next
  fix lp t0 ps
  assume t: "tunnel env clk pod = Some (lp, t0)"
    and "fst (CaptureProfiles env clk pod kinds) = Inr ps"
  then have "fst (captureLoop env t0 lp kinds []) = Inr ps"
    by (simp add: CaptureProfiles_tunnel)
  from captureLoop_succeeds [OF this]
  show "map PType ps = kinds" and "map Timestamp ps = map snd (timeline env t0 lp kinds)"
    by simp_all
qed

theorem CaptureProfiles_all_or_nothing_witness:
  "(\<exists>err. fst (CaptureProfiles example_env 100 test_pod [''heap'', ''bogus'', ''cpu'']) = Inl err) \<and>
   (\<exists>ps. fst (CaptureProfiles example_env 100 test_pod [''heap'', ''cpu'']) = Inr ps \<and>
      map PType ps = [''heap'', ''cpu''] \<and> map Timestamp ps = [103, 133])"
proof -
  have t: "tunnel example_env 100 test_pod = Some (40000, 101)"
    by (simp add: tunnel_def example_env_def)
  have port: "itoa 40000 = ''40000''"
    by (simp add: itoa_def itoa_nat.simps digit_def)
  have urls: "profileURL 40000 ''heap'' = ''http://localhost:40000/debug/pprof/heap''"
    "profileURL 40000 ''cpu'' = ''http://localhost:40000/debug/pprof/profile?seconds=30''"
    "profileURL 40000 ''bogus'' = ''http://localhost:40000/debug/pprof/bogus''"
    by (simp_all add: profileURL_def port getProfileEndpoint_def)
  have get: "httpGet example_env t ''http://localhost:40000/debug/pprof/heap''
        = (Inr \<lparr>StatusCode = 200, Body = Inr ''heap-bytes''\<rparr>, 2)"
    "httpGet example_env t ''http://localhost:40000/debug/pprof/profile?seconds=30''
        = (Inr \<lparr>StatusCode = 200, Body = Inr ''cpu-bytes''\<rparr>, 30)"
    "httpGet example_env t ''http://localhost:40000/debug/pprof/bogus''
        = (Inr \<lparr>StatusCode = 404, Body = Inr ''not found''\<rparr>, 1)" for t
    by (simp_all add: example_env_def)
  have bad: "\<exists>i < length [''heap'', ''bogus'', ''cpu'']. \<exists>resp.
      fst (httpGet example_env
             (fst (timeline example_env 101 40000 [''heap'', ''bogus'', ''cpu''] ! i))
             (profileURL 40000 ([''heap'', ''bogus'', ''cpu''] ! i))) = Inr resp \<and>
      StatusCode resp \<noteq> 200"
    by (rule exI [of _ 1]) (simp add: urls get)
  from CaptureProfiles_all_or_nothing [of example_env 100 test_pod "[''heap'', ''bogus'', ''cpu'']"]
    t bad
  have fails: "\<exists>err. fst (CaptureProfiles example_env 100 test_pod [''heap'', ''bogus'', ''cpu'']) = Inl err"
    by blast
  have ok: "fst (CaptureProfiles example_env 100 test_pod [''heap'', ''cpu''])
      = Inr [\<lparr>PType = ''heap'', Data = ''heap-bytes'', Timestamp = 103\<rparr>,
             \<lparr>PType = ''cpu'', Data = ''cpu-bytes'', Timestamp = 133\<rparr>]"
    by (simp add: CaptureProfiles_tunnel [OF t] captureProfile_def urls get StatusOK_def)
  from CaptureProfiles_all_or_nothing [of example_env 100 test_pod "[''heap'', ''cpu'']"] t ok
  have "map Timestamp [\<lparr>PType = ''heap'', Data = ''heap-bytes'', Timestamp = 103\<rparr>,
             \<lparr>PType = ''cpu'', Data = ''cpu-bytes'', Timestamp = 133\<rparr>]
        = map snd (timeline example_env 101 40000 [''heap'', ''cpu''])"
    by blast
  with fails ok show ?thesis by simp
qed

subsection \<open>Facts about the example cluster and about \<^verbatim>\<open>Reconcile\<close>\<close>

lemma hot_pod_fields:
  "Name hot_pod = ''test-app-abc123-xyz456''" "Namespace hot_pod = ''production''"
  "Annotations hot_pod = [(''bolometer.io/enabled'', ''true'')]"
  "Phase hot_pod = ''Running''"
  "Containers hot_pod = [\<lparr>CName = ''app'', Requests = [''cpu'' \<mapsto> 1, ''memory'' \<mapsto> 100]\<rparr>]"
  by (simp_all add: hot_pod_def test_pod_def)

lemma hot_pod_key: "getPodKey hot_pod = ''production/test-app-abc123-xyz456''"
  by (simp add: getPodKey_def hot_pod_fields)

lemma example_config_fields:
  "CfgName example_config = ''test-config''" "CfgNamespace example_config = ''production''"
  "SelectorNamespace example_config = ''production''"
  "CPUThresholdPercent example_config = 30" "MemoryThresholdPercent example_config = 30"
  "CooldownSeconds example_config = 300" "OnDemand example_config = None"
  "Bucket example_config = ''test-bucket''" "Region example_config = ''us-west-2''"
  "Prefix example_config = ''profiles''"
  "ProfileTypes example_config = [''heap'']"
  by (simp_all add: example_config_def)

lemma example_config_key: "configKeyOf example_config = ''production/test-config''"
  by (simp add: configKeyOf_def example_config_fields)

lemma cluster_env_calls:
  "getConfig cluster_env t ''production/test-config'' = Found example_config"
  "listPods cluster_env t ''production'' sel = Inr [hot_pod]"
  "updateStatus cluster_env t c = None"
  "portForward cluster_env t ns n p = (Inr 40000, 1)"
  "ready cluster_env t = (Ready, 0)"
  "httpGet cluster_env t ''http://localhost:40000/debug/pprof/heap''
     = (Inr \<lparr>StatusCode = 200, Body = Inr ''heap-bytes''\<rparr>, 2)"
  "loadAWSConfig cluster_env t region = None"
  "putObject cluster_env t input = (None, 1)"
  "getPodMetrics cluster_env t ns n
     = (Inr [\<lparr>MName = ''app'', Usage = [''cpu'' \<mapsto> 85 / 100, ''memory'' \<mapsto> 10]\<rparr>], 0)"
  "format2f cluster_env = (\<lambda>x. ''?'')"
  by (simp_all add: cluster_env_def example_env_def)

lemma cluster_capture:
  "captureAndUpload cluster_env clk hot_pod example_config reason = (None, clk + 4)"
proof -
  have port: "itoa 40000 = ''40000''"
    by (simp add: itoa_def itoa_nat.simps digit_def)
  have url: "profileURL 40000 ''heap'' = ''http://localhost:40000/debug/pprof/heap''"
    by (simp add: profileURL_def port getProfileEndpoint_def)
  have cap: "CaptureProfiles cluster_env clk hot_pod [''heap'']
      = (Inr [\<lparr>PType = ''heap'', Data = ''heap-bytes'', Timestamp = clk + 3\<rparr>], clk + 3)"
    by (simp add: CaptureProfiles_def captureProfile_def cluster_env_calls url StatusOK_def Let_def)
  show ?thesis
    by (simp add: captureAndUpload_def example_config_fields cap NewS3Uploader_def
        cluster_env_calls UploadProfile_def Let_def)
qed

lemma cluster_metrics:
  "GetPodMetrics cluster_env clk ''production'' ''test-app-abc123-xyz456'' hot_pod
     = (Inr \<lparr>CPUUsagePercent = Fin 85, MemoryUsagePercent = Fin 10,
             CPUUsage = 85 / 100, MemoryUsage = 10\<rparr>, clk)"
  by (simp add: GetPodMetrics_def cluster_env_calls calculateMetrics_def hot_pod_fields
      ResourceCPU_def ResourceMemory_def IsZero_def MilliValue_def Value_def f64_of_int_def
      Let_def)

lemma cluster_threshold:
  "CheckThresholds (\<lambda>x. ''?'') \<lparr>CPUUsagePercent = Fin 85, MemoryUsagePercent = Fin 10,
             CPUUsage = cu, MemoryUsage = mu\<rparr> 30 30
     = (True, ''CPU usage ?% exceeds threshold 30%'')"
proof -
  have "itoa 30 = ''30''"
    by (simp add: itoa_def itoa_nat.simps digit_def)
  then show ?thesis
    by (simp add: CheckThresholds_def f64_of_int_def)
qed

lemma stopMonitoring_frame:
  "podWatcher (stopMonitoring r k) = podWatcher r"
  "captures (stopMonitoring r k) = captures r"
  "clock (stopMonitoring r k) = clock r"
  "started (stopMonitoring r k) = started r"
  "statusWrites (stopMonitoring r k) = statusWrites r"
  "nextCtx (stopMonitoring r k) = nextCtx r"
  by (simp_all add: stopMonitoring_def split: option.splits)

lemma startMonitoring_frame:
  "podWatcher (startMonitoring r c) = podWatcher r"
  "captures (startMonitoring r c) = captures r"
  "clock (startMonitoring r c) = clock r"
  "statusWrites (startMonitoring r c) = statusWrites r"
  by (simp_all add: startMonitoring_def Let_def split: option.splits)

lemma startMonitoring_started:
  "started (startMonitoring r c) =
     started r @ [(nextCtx r, ThresholdMonitor, c)] @
     (case OnDemand c of
        None \<Rightarrow> []
      | Some od \<Rightarrow> if Enabled od then [(nextCtx r, OnDemandMonitor, c)] else [])"
  by (simp add: startMonitoring_def Let_def split: option.splits)

lemma Reconcile_valid:
  assumes "getConfig env (clock r) (namespace @ ''/'' @ name) = Found config"
    and "validateConfig config = None"
    and "ListMatchingPods env (clock r) config = Inr pods"
  shows "fst (Reconcile env r namespace name) = Inr \<lparr>RequeueAfter = 30 * 1000000000\<rparr>"
    and "podWatcher (snd (Reconcile env r namespace name))
           = foldl (\<lambda>pw pod. TrackPod pw pod config) (podWatcher r) pods"
    and "captures (snd (Reconcile env r namespace name)) = captures r"
    and "started (snd (Reconcile env r namespace name)) =
           started r @ [(nextCtx r, ThresholdMonitor, config\<lparr>ActivePods := int (length pods)\<rparr>)] @
           (case OnDemand config of
              None \<Rightarrow> []
            | Some od \<Rightarrow>
                if Enabled od
                then [(nextCtx r, OnDemandMonitor, config\<lparr>ActivePods := int (length pods)\<rparr>)]
                else [])"
  using assms
  by (simp_all add: Reconcile_def Let_def stopMonitoring_frame startMonitoring_frame
      startMonitoring_started split: option.splits)

lemma cluster_list:
  "ListMatchingPods cluster_env t example_config = Inr [hot_pod]"
  by (simp add: ListMatchingPods_def example_config_fields cluster_env_calls
      isPodProfilingEnabled_def ProfilingEnabledAnnotation_def hot_pod_fields PodRunning_def)

lemma cluster_valid: "validateConfig example_config = None"
  by (simp add: validateConfig_def example_config_fields)

lemma TrackPod_hot:
  "trackedPods pw = [] \<or> trackedPods pw = hot_entry \<Longrightarrow>
   TrackPod pw hot_pod example_config
     = \<lparr>trackedPods = hot_entry,
        lastProfileTime = (if trackedPods pw = [] then lastProfileTime pw
                           else (lastProfileTime pw)(''production/test-app-abc123-xyz456'' := None))\<rparr>"
  by (auto simp: TrackPod_def hot_pod_key hot_entry_def stopTrackingLocked_def Let_def)

lemma tick_hot:
  assumes "trackedPods (podWatcher r) = hot_entry"
    and "CanProfile (podWatcher r) (clock r) hot_pod 300"
  shows "captures (checkPodsThresholds cluster_env r example_config) =
           captures r @ [(ByThreshold, ''production/test-app-abc123-xyz456'',
                          ''production/test-config'', ''CPU usage ?% exceeds threshold 30%'',
                          clock r)]"
    and "podWatcher (checkPodsThresholds cluster_env r example_config) =
           UpdateLastProfileTime (podWatcher r) (clock r + 4) hot_pod"
  using assms
  by (simp_all add: checkPodsThresholds_def GetTrackedPods_def hot_entry_def
      checkPodThresholds_def example_config_fields hot_pod_fields cluster_metrics
      cluster_env_calls cluster_threshold hot_pod_key example_config_key cluster_capture
      updateProfileStats_def Let_def)

lemma tick_hot_cooldown:
  assumes "trackedPods (podWatcher r) = hot_entry"
    and "\<not> CanProfile (podWatcher r) (clock r) hot_pod 300"
  shows "checkPodsThresholds cluster_env r example_config = r"
  using assms
  by (simp add: checkPodsThresholds_def GetTrackedPods_def hot_entry_def
      checkPodThresholds_def example_config_fields)

subsection \<open>C1: the cooldown between threshold-driven captures\<close>

text \<open>Where the watcher honours the cooldown: right after a capture marked at \<open>t\<close>, a pod
  cannot be profiled before \<open>t + T\<close> (for a cooldown whose nanoseconds fit \<^verbatim>\<open>int64\<close>). And
  where it loses it: tracking a pod that is already tracked deletes its last-profile time, so
  the next test finds none.\<close>

lemma CanProfile_within_cooldown:
  assumes "0 \<le> T" and "T * 1000000000 < 2 ^ 63" and "now \<le> t + T * 1000000000"
  shows "\<not> CanProfile (UpdateLastProfileTime pw t pod) now pod T"
proof -
  have w: "wrap64 (T * 1000000000) = T * 1000000000"
    using assms(1, 2) by (simp add: wrap64_def)
  have "sat64 (now - t) \<le> T * 1000000000"
    using assms by (simp add: sat64_def)
  with w show ?thesis
    by (simp add: CanProfile_def UpdateLastProfileTime_def)
qed

lemma TrackPod_tracked_clears_timestamp:
  "map_of (trackedPods pw) (getPodKey pod) = Some tracked \<Longrightarrow>
   lastProfileTime (TrackPod pw pod config) (getPodKey pod) = None \<and>
   CanProfile (TrackPod pw pod config) now pod T"
  by (simp add: TrackPod_def stopTrackingLocked_def CanProfile_def Let_def)

lemma run_tracked_state:
  "podWatcher run_tracked = \<lparr>trackedPods = hot_entry, lastProfileTime = Map.empty\<rparr>"
  "captures run_tracked = []"
proof -
  have g: "getConfig cluster_env (clock NewProfilingConfigReconciler)
             (''production'' @ ''/'' @ ''test-config'') = Found example_config"
    by (simp add: cluster_env_calls)
  note rv = Reconcile_valid [OF g cluster_valid cluster_list]
  show "podWatcher run_tracked = \<lparr>trackedPods = hot_entry, lastProfileTime = Map.empty\<rparr>"
    unfolding run_tracked_def rv
    by (simp add: TrackPod_hot NewProfilingConfigReconciler_def NewPodWatcher_def)
  show "captures run_tracked = []"
    unfolding run_tracked_def rv by (simp add: NewProfilingConfigReconciler_def)
qed

lemma run_first_tick_state:
  "podWatcher run_first_tick =
     \<lparr>trackedPods = hot_entry,
      lastProfileTime = [''production/test-app-abc123-xyz456'' \<mapsto> seconds 10 + 4]\<rparr>"
  "captures run_first_tick =
     [(ByThreshold, ''production/test-app-abc123-xyz456'', ''production/test-config'',
       ''CPU usage ?% exceeds threshold 30%'', seconds 10)]"
proof -
  let ?r = "run_tracked\<lparr>clock := seconds 10\<rparr>"
  have t: "trackedPods (podWatcher ?r) = hot_entry"
    by (simp add: run_tracked_state)
  have c: "CanProfile (podWatcher ?r) (clock ?r) hot_pod 300"
    by (simp add: CanProfile_def run_tracked_state)
  note tk = tick_hot [OF t c]
  show "podWatcher run_first_tick =
     \<lparr>trackedPods = hot_entry,
      lastProfileTime = [''production/test-app-abc123-xyz456'' \<mapsto> seconds 10 + 4]\<rparr>"
    unfolding run_first_tick_def tk
    by (simp add: UpdateLastProfileTime_def run_tracked_state hot_pod_key)
  show "captures run_first_tick =
     [(ByThreshold, ''production/test-app-abc123-xyz456'', ''production/test-config'',
       ''CPU usage ?% exceeds threshold 30%'', seconds 10)]"
    unfolding run_first_tick_def tk by (simp add: run_tracked_state)
qed

lemma run_no_reconcile_state:
  "captures run_second_tick_no_reconcile = captures run_first_tick"
proof -
  let ?r = "run_first_tick\<lparr>clock := seconds 40\<rparr>"
  have t: "trackedPods (podWatcher ?r) = hot_entry"
    by (simp add: run_first_tick_state)
  have c: "\<not> CanProfile (podWatcher ?r) (clock ?r) hot_pod 300"
    by (simp add: CanProfile_def run_first_tick_state hot_pod_key seconds_def wrap64_def
        sat64_def)
  show ?thesis
    unfolding run_second_tick_no_reconcile_def tick_hot_cooldown [OF t c] by simp
qed

lemma run_reconciled_state:
  "podWatcher run_reconciled = \<lparr>trackedPods = hot_entry, lastProfileTime = Map.empty\<rparr>"
  "captures run_reconciled = captures run_first_tick"
proof -
  let ?r = "run_first_tick\<lparr>clock := seconds 30\<rparr>"
  have g: "getConfig cluster_env (clock ?r) (''production'' @ ''/'' @ ''test-config'')
             = Found example_config"
    by (simp add: cluster_env_calls)
  note rv = Reconcile_valid [OF g cluster_valid cluster_list]
  show "podWatcher run_reconciled = \<lparr>trackedPods = hot_entry, lastProfileTime = Map.empty\<rparr>"
    unfolding run_reconciled_def rv
    by (simp add: TrackPod_hot run_first_tick_state hot_entry_def)
  show "captures run_reconciled = captures run_first_tick"
    unfolding run_reconciled_def rv by simp
qed

text \<open>C1 says that after a successful threshold-driven capture of an instance at \<open>t\<close> no
  threshold-driven capture of it starts before \<open>t + T\<close>, \<open>T\<close> being the cooldown. On the run
  defined above the cooldown is 300 s, the first capture starts at 10 s and succeeds, and a
  second one starts at 40 s: the periodic reconcile at 30 s tracks the pod again, and
  \<^verbatim>\<open>TrackPod\<close> (through \<^verbatim>\<open>stopTrackingLocked\<close>) deletes the last-profile time of a pod that
  is already tracked. Without that reconcile the tick at 40 s captures nothing.\<close>

theorem cooldown_reset_by_reconcile:
  "CooldownSeconds example_config = 300 \<and>
   map without_reason (captures run_second_tick) =
     [(ByThreshold, ''production/test-app-abc123-xyz456'', ''production/test-config'', seconds 10),
      (ByThreshold, ''production/test-app-abc123-xyz456'', ''production/test-config'', seconds 40)] \<and>
   map without_reason (captures run_second_tick_no_reconcile) =
     [(ByThreshold, ''production/test-app-abc123-xyz456'', ''production/test-config'', seconds 10)]"
proof -
  let ?r = "run_reconciled\<lparr>clock := seconds 40\<rparr>"
  have t: "trackedPods (podWatcher ?r) = hot_entry"
    by (simp add: run_reconciled_state)
  have c: "CanProfile (podWatcher ?r) (clock ?r) hot_pod 300"
    by (simp add: CanProfile_def run_reconciled_state)
  have "captures run_second_tick =
      captures run_first_tick @
      [(ByThreshold, ''production/test-app-abc123-xyz456'', ''production/test-config'',
        ''CPU usage ?% exceeds threshold 30%'', seconds 40)]"
    unfolding run_second_tick_def tick_hot(1) [OF t c]
    by (simp add: run_reconciled_state)
  then show ?thesis
    by (simp add: run_no_reconcile_state run_first_tick_state without_reason_def
        example_config_fields)
qed

subsection \<open>C2: tracking a pod that is already tracked\<close>

text \<open>C2 says that only the capture path changes the last-profile time of a key, and in
  particular that tracking an instance that is already tracked replaces its entry and leaves
  its last-profile time as it was. On the watcher defined above the pod is tracked and its
  last-profile time is 10 s; tracking it again leaves one entry for it, and no last-profile
  time: \<^verbatim>\<open>TrackPod\<close> calls \<^verbatim>\<open>stopTrackingLocked\<close> for the existing entry, which deletes
  the key from \<^verbatim>\<open>lastProfileTime\<close> as well. This is the defect of C1, seen on the registry
  alone.\<close>

theorem TrackPod_again_deletes_timestamp:
  "map_of (trackedPods marked_watcher) (getPodKey hot_pod)
     = Some \<lparr>TPod = hot_pod, TConfig = example_config\<rparr> \<and>
   lastProfileTime marked_watcher (getPodKey hot_pod) = Some (seconds 10) \<and>
   GetTrackedPods (TrackPod marked_watcher hot_pod example_config)
     = [\<lparr>TPod = hot_pod, TConfig = example_config\<rparr>] \<and>
   lastProfileTime (TrackPod marked_watcher hot_pod example_config) (getPodKey hot_pod) = None"
  by (simp add: marked_watcher_def TrackPod_def UpdateLastProfileTime_def NewPodWatcher_def
      stopTrackingLocked_def GetTrackedPods_def Let_def)

subsection \<open>C3: the on-demand monitor and the cooldown\<close>

lemma updateProfileStats_podWatcher:
  "podWatcher (updateProfileStats env r config) = podWatcher r"
  by (simp add: updateProfileStats_def Let_def split: get_result.splits option.splits)

lemma updateProfileStats_captures:
  "captures (updateProfileStats env r config) = captures r"
  by (simp add: updateProfileStats_def Let_def split: get_result.splits option.splits)

lemma onDemandPod_podWatcher:
  "podWatcher (onDemandPod env config r tracked) = podWatcher r"
  by (simp add: onDemandPod_def Let_def updateProfileStats_podWatcher
      split: prod.splits option.splits)

lemma onDemandPod_captures:
  "captures (onDemandPod env config r tracked) =
     captures r @ [(ByInterval, getPodKey (TPod tracked), configKeyOf config, ''on-demand'', clock r)]"
  by (simp add: onDemandPod_def Let_def updateProfileStats_captures
      split: prod.splits option.splits)

lemma onDemandPod_independent:
  "onDemandPod env config (r\<lparr>podWatcher := pw\<rparr>) tracked
     = (onDemandPod env config r tracked)\<lparr>podWatcher := pw\<rparr>"
  by (simp add: onDemandPod_def Let_def updateProfileStats_def
      split: prod.splits option.splits get_result.splits)

lemma foldl_onDemandPod_podWatcher:
  "podWatcher (foldl (onDemandPod env config) r ts) = podWatcher r"
  by (induction ts arbitrary: r) (simp_all add: onDemandPod_podWatcher)

lemma foldl_onDemandPod_independent:
  "foldl (onDemandPod env config) (r\<lparr>podWatcher := pw\<rparr>) ts
     = (foldl (onDemandPod env config) r ts)\<lparr>podWatcher := pw\<rparr>"
  by (induction ts arbitrary: r) (simp_all add: onDemandPod_independent)

lemma updateProfileStats_clock:
  "clock (updateProfileStats env r config) = clock r"
  by (simp add: updateProfileStats_def Let_def split: get_result.splits option.splits)

lemma updateProfileStats_statusWrites:
  "statusWrites (updateProfileStats env r config)
     = statusWrites r @ stats_write env config (clock r)"
  by (simp add: updateProfileStats_def stats_write_def Let_def
      split: get_result.splits option.splits)

lemma onDemandPod_clock:
  "clock (onDemandPod env config r tracked)
     = snd (captureAndUpload env (clock r) (TPod tracked) config ''on-demand'')"
  by (simp add: onDemandPod_def Let_def updateProfileStats_clock
      split: prod.splits option.splits)

lemma onDemandPod_statusWrites:
  "statusWrites (onDemandPod env config r tracked) =
     statusWrites r @
     (if fst (captureAndUpload env (clock r) (TPod tracked) config ''on-demand'') = None
      then stats_write env config
             (snd (captureAndUpload env (clock r) (TPod tracked) config ''on-demand''))
      else [])"
  by (simp add: onDemandPod_def Let_def updateProfileStats_statusWrites
      split: prod.splits option.splits)

lemma on_demand_schedule_length:
  "length (on_demand_schedule env config t ts) = length ts"
  by (induction ts arbitrary: t) (simp_all add: Let_def)

lemma foldl_onDemandPod_log:
  "captures (foldl (onDemandPod env config) r ts) =
     captures r @
     map (\<lambda>(tracked, start, err, finish).
            (ByInterval, getPodKey (TPod tracked), configKeyOf config, ''on-demand'', start))
       (zip ts (on_demand_schedule env config (clock r) ts))"
  by (induction ts arbitrary: r) (simp_all add: onDemandPod_captures onDemandPod_clock Let_def)

lemma foldl_onDemandPod_clock:
  "clock (foldl (onDemandPod env config) r ts) =
     (if ts = [] then clock r
      else snd (snd (last (on_demand_schedule env config (clock r) ts))))"
proof (induction ts arbitrary: r)
  case Nil
  then show ?case by simp
next
  case (Cons tp tps)
  have ne: "tps \<noteq> [] \<Longrightarrow> on_demand_schedule env config t tps \<noteq> []" for t
    using on_demand_schedule_length [of env config t tps] by auto
  show ?case
    using Cons [of "onDemandPod env config r tp"] ne
    by (cases "tps = []") (simp_all add: onDemandPod_clock Let_def)
qed

lemma foldl_onDemandPod_statusWrites:
  "statusWrites (foldl (onDemandPod env config) r ts) =
     statusWrites r @
     concat (map (\<lambda>(start, err, finish). if err = None then stats_write env config finish else [])
               (on_demand_schedule env config (clock r) ts))"
  by (induction ts arbitrary: r)
     (auto simp: onDemandPod_statusWrites onDemandPod_clock Let_def split: prod.splits)

lemma onDemandPod_monitors:
  "activeMonitors (onDemandPod env config r tracked) = activeMonitors r \<and>
   nextCtx (onDemandPod env config r tracked) = nextCtx r \<and>
   started (onDemandPod env config r tracked) = started r \<and>
   cancelled (onDemandPod env config r tracked) = cancelled r"
  by (simp add: onDemandPod_def Let_def updateProfileStats_def
      split: prod.splits option.splits get_result.splits)

lemma foldl_onDemandPod_monitors:
  "activeMonitors (foldl (onDemandPod env config) r ts) = activeMonitors r \<and>
   nextCtx (foldl (onDemandPod env config) r ts) = nextCtx r \<and>
   started (foldl (onDemandPod env config) r ts) = started r \<and>
   cancelled (foldl (onDemandPod env config) r ts) = cancelled r"
  by (induction ts arbitrary: r) (simp_all add: onDemandPod_monitors)

text \<open>C3: a tick of the on-demand monitor leaves the pod watcher, and with it every
  last-profile time, as it was (nothing is marked profiled). It runs capture-and-upload with
  the reason \<^verbatim>\<open>on-demand\<close> once for every tracked pod of the snapshot, in turn: there is
  one call per pod, each starts when the one before has returned, the clock after the tick
  is the instant the last call returned, and the status receives one update for every call
  that succeeded. And it does the same whatever last-profile times the watcher holds when
  the tick starts (the cooldown is not consulted). The monitors of the reconciler are left
  as they were.\<close>

theorem onDemandTick_ignores_cooldown:
  "podWatcher (onDemandTick env r config) = podWatcher r \<and>
   length (on_demand_schedule env config (clock r) (GetTrackedPods (podWatcher r)))
     = length (GetTrackedPods (podWatcher r)) \<and>
   captures (onDemandTick env r config) =
     captures r @
     map (\<lambda>(tracked, start, err, finish).
            (ByInterval, getPodKey (TPod tracked), configKeyOf config, ''on-demand'', start))
       (zip (GetTrackedPods (podWatcher r))
            (on_demand_schedule env config (clock r) (GetTrackedPods (podWatcher r)))) \<and>
   clock (onDemandTick env r config) =
     (if GetTrackedPods (podWatcher r) = [] then clock r
      else snd (snd (last (on_demand_schedule env config (clock r)
                             (GetTrackedPods (podWatcher r)))))) \<and>
   statusWrites (onDemandTick env r config) =
     statusWrites r @
     concat (map (\<lambda>(start, err, finish).
                    if err = None then stats_write env config finish else [])
               (on_demand_schedule env config (clock r) (GetTrackedPods (podWatcher r)))) \<and>
   activeMonitors (onDemandTick env r config) = activeMonitors r \<and>
   nextCtx (onDemandTick env r config) = nextCtx r \<and>
   started (onDemandTick env r config) = started r \<and>
   cancelled (onDemandTick env r config) = cancelled r \<and>
   onDemandTick env (r\<lparr>podWatcher := (podWatcher r)\<lparr>lastProfileTime := lpt\<rparr>\<rparr>) config =
     (onDemandTick env r config)\<lparr>podWatcher := (podWatcher r)\<lparr>lastProfileTime := lpt\<rparr>\<rparr>"
  by (simp add: onDemandTick_def foldl_onDemandPod_podWatcher foldl_onDemandPod_log
      foldl_onDemandPod_clock foldl_onDemandPod_statusWrites foldl_onDemandPod_independent
      foldl_onDemandPod_monitors on_demand_schedule_length GetTrackedPods_def)

theorem onDemandTick_ignores_cooldown_witness:
  "\<not> CanProfile (podWatcher (run_first_tick\<lparr>clock := seconds 40\<rparr>)) (seconds 40) hot_pod 300 \<and>
   captures (onDemandTick cluster_env (run_first_tick\<lparr>clock := seconds 40\<rparr>) example_config) =
     [(ByThreshold, ''production/test-app-abc123-xyz456'', ''production/test-config'',
       ''CPU usage ?% exceeds threshold 30%'', seconds 10),
      (ByInterval, ''production/test-app-abc123-xyz456'', ''production/test-config'',
       ''on-demand'', seconds 40)] \<and>
   clock (onDemandTick cluster_env (run_first_tick\<lparr>clock := seconds 40\<rparr>) example_config)
     = seconds 40 + 4 \<and>
   statusWrites (onDemandTick cluster_env (run_first_tick\<lparr>clock := seconds 40\<rparr>) example_config)
     = statusWrites run_first_tick @
       [example_config\<lparr>LastProfileTime := Some (seconds 40 + 4), TotalProfiles := 1,
                       TotalUploads := 1\<rparr>] \<and>
   lastProfileTime (podWatcher (onDemandTick cluster_env (run_first_tick\<lparr>clock := seconds 40\<rparr>)
                                  example_config))
     ''production/test-app-abc123-xyz456'' = Some (seconds 10 + 4)"
proof -
  let ?r = "run_first_tick\<lparr>clock := seconds 40\<rparr>"
  have c: "\<not> CanProfile (podWatcher ?r) (seconds 40) hot_pod 300"
    by (simp add: CanProfile_def run_first_tick_state hot_pod_key seconds_def wrap64_def
        sat64_def)
  have g: "GetTrackedPods \<lparr>trackedPods = hot_entry, lastProfileTime = m\<rparr>
             = [\<lparr>TPod = hot_pod, TConfig = example_config\<rparr>]" for m
    by (simp add: GetTrackedPods_def hot_entry_def)
  have s: "on_demand_schedule cluster_env example_config (seconds 40)
             [\<lparr>TPod = hot_pod, TConfig = example_config\<rparr>]
           = [(seconds 40, None, seconds 40 + 4)]"
    by (simp add: cluster_capture)
  have w: "stats_write cluster_env example_config t =
      [example_config\<lparr>LastProfileTime := Some t, TotalProfiles := 1, TotalUploads := 1\<rparr>]" for t
    by (simp add: stats_write_def example_config_key cluster_env_calls)
       (simp add: example_config_def wrap64_def)
  from onDemandTick_ignores_cooldown [of cluster_env ?r example_config]
  have "podWatcher (onDemandTick cluster_env ?r example_config) = podWatcher ?r"
    and "captures (onDemandTick cluster_env ?r example_config) =
     captures ?r @
     map (\<lambda>(tracked, start, err, finish).
            (ByInterval, getPodKey (TPod tracked), configKeyOf example_config, ''on-demand'', start))
       (zip (GetTrackedPods (podWatcher ?r))
            (on_demand_schedule cluster_env example_config (clock ?r)
               (GetTrackedPods (podWatcher ?r))))"
    and "clock (onDemandTick cluster_env ?r example_config) =
     (if GetTrackedPods (podWatcher ?r) = [] then clock ?r
      else snd (snd (last (on_demand_schedule cluster_env example_config (clock ?r)
                             (GetTrackedPods (podWatcher ?r))))))"
    and "statusWrites (onDemandTick cluster_env ?r example_config) =
     statusWrites ?r @
     concat (map (\<lambda>(start, err, finish).
                    if err = None then stats_write cluster_env example_config finish else [])
               (on_demand_schedule cluster_env example_config (clock ?r)
                  (GetTrackedPods (podWatcher ?r))))"
    by blast+
  with c show ?thesis
    by (simp add: g s w cluster_capture run_first_tick_state hot_pod_key example_config_key)
qed

subsection \<open>C7: validation in \<^verbatim>\<open>Reconcile\<close>\<close>

text \<open>C7 (amended): for an intent the API server returns, a reconcile fails with the message
  \<^verbatim>\<open>s3 bucket is required\<close> when the bucket is empty and with \<^verbatim>\<open>s3 region is required\<close>
  when only the region is empty, in both cases leaving the reconciler as it was (no monitor
  started, no status written, no pod tracked); with both present, it fails in the same way
  when listing the matching pods fails, and otherwise it asks to be requeued after 30 s and
  starts the threshold monitor once, and the on-demand monitor once when on-demand
  profiling is enabled.\<close>

theorem Reconcile_validation:
  assumes "getConfig env (clock r) (namespace @ ''/'' @ name) = Found config"
  shows "(Bucket config = '''' \<longrightarrow>
            Reconcile env r namespace name = (Inl ''s3 bucket is required'', r)) \<and>
         (Bucket config \<noteq> '''' \<and> Region config = '''' \<longrightarrow>
            Reconcile env r namespace name = (Inl ''s3 region is required'', r)) \<and>
         (Bucket config \<noteq> '''' \<and> Region config \<noteq> '''' \<longrightarrow>
            (\<forall>err. ListMatchingPods env (clock r) config = Inl err \<longrightarrow>
                Reconcile env r namespace name = (Inl err, r)) \<and>
            (\<forall>pods. ListMatchingPods env (clock r) config = Inr pods \<longrightarrow>
                fst (Reconcile env r namespace name) = Inr \<lparr>RequeueAfter = 30 * 1000000000\<rparr> \<and>
                started (snd (Reconcile env r namespace name)) =
                  started r @
                  [(nextCtx r, ThresholdMonitor, config\<lparr>ActivePods := int (length pods)\<rparr>)] @
                  (case OnDemand config of
                     None \<Rightarrow> []
                   | Some od \<Rightarrow>
                       if Enabled od
                       then [(nextCtx r, OnDemandMonitor,
                              config\<lparr>ActivePods := int (length pods)\<rparr>)]
                       else [])))"
proof (intro conjI impI allI)
  assume "Bucket config = ''''"
  with assms show "Reconcile env r namespace name = (Inl ''s3 bucket is required'', r)"
    by (simp add: Reconcile_def validateConfig_def)
next
  assume "Bucket config \<noteq> '''' \<and> Region config = ''''"
  with assms show "Reconcile env r namespace name = (Inl ''s3 region is required'', r)"
    by (simp add: Reconcile_def validateConfig_def)
next
  fix err
  assume "Bucket config \<noteq> '''' \<and> Region config \<noteq> ''''"
    and "ListMatchingPods env (clock r) config = Inl err"
  with assms show "Reconcile env r namespace name = (Inl err, r)"
    by (simp add: Reconcile_def validateConfig_def)
next
  fix pods
  assume v: "Bucket config \<noteq> '''' \<and> Region config \<noteq> ''''"
    and l: "ListMatchingPods env (clock r) config = Inr pods"
  from v have val: "validateConfig config = None"
    by (simp add: validateConfig_def)
  note rv = Reconcile_valid [OF assms val l]
  show "fst (Reconcile env r namespace name) = Inr \<lparr>RequeueAfter = 30 * 1000000000\<rparr>"
    by (rule rv(1))
  show "started (snd (Reconcile env r namespace name)) =
                  started r @
                  [(nextCtx r, ThresholdMonitor, config\<lparr>ActivePods := int (length pods)\<rparr>)] @
                  (case OnDemand config of
                     None \<Rightarrow> []
                   | Some od \<Rightarrow>
                       if Enabled od
                       then [(nextCtx r, OnDemandMonitor,
                              config\<lparr>ActivePods := int (length pods)\<rparr>)]
                       else [])"
    by (rule rv(4))
qed

theorem Reconcile_validation_witness:
  "Reconcile no_bucket_env NewProfilingConfigReconciler ''production'' ''test-config''
     = (Inl ''s3 bucket is required'', NewProfilingConfigReconciler) \<and>
   fst (Reconcile cluster_env NewProfilingConfigReconciler ''production'' ''test-config'')
     = Inr \<lparr>RequeueAfter = 30000000000\<rparr> \<and>
   started (snd (Reconcile cluster_env NewProfilingConfigReconciler ''production'' ''test-config''))
     = [(0, ThresholdMonitor, example_config\<lparr>ActivePods := 1\<rparr>)]"
proof -
  let ?r = NewProfilingConfigReconciler
  have g1: "getConfig no_bucket_env (clock ?r) (''production'' @ ''/'' @ ''test-config'')
      = Found (example_config\<lparr>Bucket := ''''\<rparr>)"
    by (simp add: no_bucket_env_def)
  have g2: "getConfig cluster_env (clock ?r) (''production'' @ ''/'' @ ''test-config'')
      = Found example_config"
    by (simp add: cluster_env_calls)
  have b: "Bucket (example_config\<lparr>Bucket := ''''\<rparr>) = ''''" by simp
  have v: "Bucket example_config \<noteq> '''' \<and> Region example_config \<noteq> ''''"
    by (simp add: example_config_fields)
  from Reconcile_validation [OF g1] b
  have one: "Reconcile no_bucket_env ?r ''production'' ''test-config''
      = (Inl ''s3 bucket is required'', ?r)"
    by blast
  from Reconcile_validation [OF g2] v cluster_list [of "clock ?r"]
  have "fst (Reconcile cluster_env ?r ''production'' ''test-config'')
          = Inr \<lparr>RequeueAfter = 30 * 1000000000\<rparr> \<and>
        started (snd (Reconcile cluster_env ?r ''production'' ''test-config'')) =
          started ?r @
          [(nextCtx ?r, ThresholdMonitor, example_config\<lparr>ActivePods := int (length [hot_pod])\<rparr>)] @
          (case OnDemand example_config of
             None \<Rightarrow> []
           | Some od \<Rightarrow>
               if Enabled od
               then [(nextCtx ?r, OnDemandMonitor,
                      example_config\<lparr>ActivePods := int (length [hot_pod])\<rparr>)]
               else [])"
    by blast
  with one show ?thesis
    by (simp add: NewProfilingConfigReconciler_def example_config_fields)
qed

text \<open>C7 (as stated) has the monitors of every intent with a bucket and a region started
  once per reconcile. When the API server fails to list the pods, \<^verbatim>\<open>Reconcile\<close> returns
  that error before it starts any monitor.\<close>

theorem Reconcile_list_failure_counterexample:
  "Bucket example_config \<noteq> '''' \<and> Region example_config \<noteq> '''' \<and>
   getConfig list_fails_env 0 ''production/test-config'' = Found example_config \<and>
   fst (Reconcile list_fails_env NewProfilingConfigReconciler ''production'' ''test-config'')
     = Inl ''connection refused'' \<and>
   started (snd (Reconcile list_fails_env NewProfilingConfigReconciler ''production''
                   ''test-config'')) = []"
  by (simp add: list_fails_env_def cluster_env_def example_env_def example_config_fields
      Reconcile_def NewProfilingConfigReconciler_def validateConfig_def ListMatchingPods_def)

end
